theory Spec2Isabelle
  imports Main "HOL-Library.Sublist"
begin

section \<open>JavaScript values and errors\<close>

text \<open>
  The handlers of \<^verbatim>\<open>index.js\<close> (local disk storage) and of the second server entry
  point (Supabase storage) work on duck-typed objects: the request body, the uploaded
  file and the rows returned by the query layer. A value is one of the JavaScript values
  the handlers can meet; an object is a property lookup, an absent property reading
  as \<open>Undefined\<close>.
\<close>

datatype val = Undefined | Null | Str string | Num int | Date int | InvalidDate

type_synonym obj = "string \<Rightarrow> val"

text \<open>\<^verbatim>\<open>if (x)\<close>: \<^verbatim>\<open>undefined\<close>, \<^verbatim>\<open>null\<close>, the empty string and zero are falsy; every
  object, an invalid \<^verbatim>\<open>Date\<close> included, is truthy.\<close>

fun truthy :: "val \<Rightarrow> bool" where
  "truthy Undefined = False"
| "truthy Null = False"
| "truthy (Str s) = (s \<noteq> [])"
| "truthy (Num n) = (n \<noteq> 0)"
| "truthy (Date t) = True"
| "truthy InvalidDate = True"

text \<open>\<^verbatim>\<open>a || b\<close>\<close>

definition or_js :: "val \<Rightarrow> val \<Rightarrow> val" where
  "or_js a b = (if truthy a then a else b)"

text \<open>A template literal renders a missing string as \<^verbatim>\<open>undefined\<close>.\<close>

fun template :: "string option \<Rightarrow> string" where
  "template None = ''undefined''"
| "template (Some s) = s"

datatype errno = ENOENT | EACCES

datatype exn =
    Error string
  | ReferenceError string
  | TypeError string
  | PrismaValidationError string
  | PrismaKnownRequestError string
  | SystemError errno

text \<open>\<^verbatim>\<open>error.message\<close> and \<^verbatim>\<open>error.code\<close>\<close>

fun message :: "exn \<Rightarrow> string" where
  "message (Error m) = m"
| "message (ReferenceError m) = m"
| "message (TypeError m) = m"
| "message (PrismaValidationError m) = m"
| "message (PrismaKnownRequestError m) = m"
| "message (SystemError ENOENT) = ''ENOENT: no such file or directory''"
| "message (SystemError EACCES) = ''EACCES: permission denied''"

fun code :: "exn \<Rightarrow> errno option" where
  "code (SystemError c) = Some c"
| "code _ = None"

section \<open>The collaborators: configuration, disk, bucket, tables\<close>

text \<open>
  What the process reads from its surroundings and does not change: \<^verbatim>\<open>__dirname\<close>,
  \<^verbatim>\<open>process.env.SUPABASE_URL\<close>, the text of \<^verbatim>\<open>Date.now()\<close>, the parser behind
  \<^verbatim>\<open>new Date(string)\<close>, and which storage operations fail for a reason of the storage
  itself (a path on which \<^verbatim>\<open>unlink\<close> is refused, a disk multer cannot write, a storage
  service answering an upload or a removal with an error).
\<close>

record env =
  dirname :: string
  SUPABASE_URL :: string
  now :: string
  date_parse :: "string \<Rightarrow> int option"
  unlink_denied :: "string \<Rightarrow> bool"
  disk_fault :: bool
  upload_fault :: bool
  remove_fault :: bool

text \<open>The models of \<^verbatim>\<open>schema.prisma\<close> whose routes are embedded below.\<close>

datatype delegate = news | announcement | headmasterMessage | strukturOrganisasi | staffAndTeacher

datatype kind = String | DateTime

text \<open>A column: its name, its type, and whether it is required (no \<^verbatim>\<open>?\<close>).\<close>

fun model :: "delegate \<Rightarrow> (string \<times> kind \<times> bool) list" where
  "model news =
     [(''title'', String, True), (''description'', String, True),
      (''image'', String, False), (''publishedAt'', DateTime, True)]"
| "model announcement =
     [(''title'', String, True), (''description'', String, True),
      (''publishedDate'', DateTime, True)]"
| "model headmasterMessage =
     [(''message'', String, True), (''description'', String, True),
      (''image'', String, True), (''headmasterName'', String, True)]"
| "model strukturOrganisasi =
     [(''role'', String, True), (''name'', String, True), (''image'', String, True)]"
| "model staffAndTeacher =
     [(''name'', String, True), (''role'', String, True), (''image'', String, True)]"

record table =
  rows :: "int \<rightharpoonup> obj"
  autoincrement :: int

text \<open>The calls a handler makes to its collaborators, in the order it makes them. The
  trace is kept for the statements about order; no handler reads it.\<close>

datatype event =
    FsWrite string
  | FsUnlink string
  | Upload string
  | Remove "string list"
  | DbCreate delegate
  | DbUpdate delegate "int option"
  | DbDelete delegate "int option"

record world =
  db :: "delegate \<Rightarrow> table"
  files :: "string \<rightharpoonup> string"
  bucket :: "string \<rightharpoonup> string"
  trace :: "event list"

text \<open>An awaited computation: it throws or returns a value, and leaves a world behind.\<close>

type_synonym 'a io = "world \<Rightarrow> (exn + 'a) \<times> world"

definition return :: "'a \<Rightarrow> 'a io" where
  "return a w = (Inr a, w)"

definition throw :: "exn \<Rightarrow> 'a io" where
  "throw x w = (Inl x, w)"

definition await :: "'a io \<Rightarrow> ('a \<Rightarrow> 'b io) \<Rightarrow> 'b io" where
  "await m f w = (case m w of (Inl x, w1) \<Rightarrow> (Inl x, w1) | (Inr a, w1) \<Rightarrow> f a w1)"

definition try_catch :: "'a io \<Rightarrow> (exn \<Rightarrow> 'a io) \<Rightarrow> 'a io" where
  "try_catch m h w = (case m w of (Inl x, w1) \<Rightarrow> h x w1 | (Inr a, w1) \<Rightarrow> (Inr a, w1))"

definition log :: "event \<Rightarrow> world \<Rightarrow> world" where
  "log ev w = w\<lparr>trace := trace w @ [ev]\<rparr>"

subsection \<open>The query layer\<close>

text \<open>
  The data of a \<^verbatim>\<open>create\<close> or \<^verbatim>\<open>update\<close> call is an object literal, kept in the order
  written; a property that is \<^verbatim>\<open>undefined\<close> counts as not given.
\<close>

type_synonym data = "(string \<times> val) list"

definition field :: "data \<Rightarrow> string \<Rightarrow> val" where
  "field d c = (case map_of d c of None \<Rightarrow> Undefined | Some v \<Rightarrow> v)"

fun accepts :: "kind \<Rightarrow> val \<Rightarrow> bool" where
  "accepts String (Str s) = True"
| "accepts DateTime (Date t) = True"
| "accepts _ _ = False"

definition create_ok :: "delegate \<Rightarrow> data \<Rightarrow> bool" where
  "create_ok t d =
     list_all (\<lambda>(c, k, required).
        if field d c = Undefined then \<not> required
        else if field d c = Null then \<not> required
        else accepts k (field d c))
       (model t)"

definition update_ok :: "delegate \<Rightarrow> data \<Rightarrow> bool" where
  "update_ok t d =
     list_all (\<lambda>(c, k, required).
        if field d c = Undefined then True
        else if field d c = Null then \<not> required
        else accepts k (field d c))
       (model t)"

definition new_row :: "delegate \<Rightarrow> int \<Rightarrow> data \<Rightarrow> obj" where
  "new_row t i d =
     (\<lambda>c. if c = ''id'' then Num i
          else case map_of (model t) c of
                 None \<Rightarrow> Undefined
               | Some _ \<Rightarrow> (if field d c = Undefined then Null else field d c))"

definition patch_row :: "delegate \<Rightarrow> obj \<Rightarrow> data \<Rightarrow> obj" where
  "patch_row t r d =
     (\<lambda>c. case map_of (model t) c of
            None \<Rightarrow> r c
          | Some _ \<Rightarrow> (if field d c = Undefined then r c else field d c))"

definition put_table :: "delegate \<Rightarrow> table \<Rightarrow> world \<Rightarrow> world" where
  "put_table t T w = w\<lparr>db := (db w)(t := T)\<rparr>"

text \<open>
  The id column of every model is \<^verbatim>\<open>Int\<close>, a 32-bit integer in the database
  (\<^verbatim>\<open>SERIAL\<close> in the migrations). No row is stored under an id outside that range, and
  a query for such an id is refused by the query layer (\<^verbatim>\<open>P2020\<close>) instead of being
  answered with "no row".
\<close>

definition int4 :: "int \<Rightarrow> bool" where
  "int4 k = (- 2147483648 \<le> k \<and> k \<le> 2147483647)"

definition out_of_range :: exn where
  "out_of_range = PrismaKnownRequestError ''Value out of range for the type''"

text \<open>
  \<^verbatim>\<open>findUnique({ where: { id } })\<close>: the row stored under the id, or \<^verbatim>\<open>null\<close> when
  the id is in range and has no row; an id that is \<^verbatim>\<open>NaN\<close> (here \<open>None\<close>) is refused
  by the client's validation, an id outside the column's range by the database.
\<close>

definition findUnique :: "delegate \<Rightarrow> int option \<Rightarrow> obj option io" where
  "findUnique t i w =
     (case i of
        None \<Rightarrow> (Inl (PrismaValidationError ''Invalid value provided for id''), w)
      | Some k \<Rightarrow>
          (case rows (db w t) k of
             Some r \<Rightarrow> (Inr (Some r), w)
           | None \<Rightarrow> if int4 k then (Inr None, w) else (Inl out_of_range, w)))"

text \<open>
  \<^verbatim>\<open>create({ data })\<close>: validation first; the id is the next value of the table's
  sequence, which ends at the column's range and is used up even when the insert meets
  an existing id.
\<close>

definition create :: "delegate \<Rightarrow> data \<Rightarrow> obj io" where
  "create t d w =
     (let w1 = log (DbCreate t) w; T = db w t; i = autoincrement T + 1 in
      if \<not> create_ok t d then (Inl (PrismaValidationError ''Invalid create data''), w1)
      else if \<not> int4 i then (Inl out_of_range, w1)
      else case rows T i of
             Some _ \<Rightarrow>
               (Inl (PrismaKnownRequestError ''Unique constraint failed on the fields: (id)''),
                put_table t \<lparr>rows = rows T, autoincrement = i\<rparr> w1)
           | None \<Rightarrow>
               (Inr (new_row t i d),
                put_table t \<lparr>rows = (rows T)(i \<mapsto> new_row t i d), autoincrement = i\<rparr> w1))"

text \<open>\<^verbatim>\<open>update({ where: { id }, data })\<close>: throws when no row has the id.\<close>

definition update :: "delegate \<Rightarrow> int option \<Rightarrow> data \<Rightarrow> obj io" where
  "update t i d w =
     (let w1 = log (DbUpdate t i) w; T = db w t in
      case i of
        None \<Rightarrow> (Inl (PrismaValidationError ''Invalid value provided for id''), w1)
      | Some k \<Rightarrow>
          if \<not> update_ok t d then (Inl (PrismaValidationError ''Invalid update data''), w1)
          else (case rows T k of
                  None \<Rightarrow>
                    if int4 k
                    then (Inl (PrismaKnownRequestError ''Record to update not found.''), w1)
                    else (Inl out_of_range, w1)
                | Some r \<Rightarrow>
                    (Inr (patch_row t r d),
                     put_table t
                       \<lparr>rows = (rows T)(k \<mapsto> patch_row t r d), autoincrement = autoincrement T\<rparr>
                       w1)))"

text \<open>\<^verbatim>\<open>delete({ where: { id } })\<close>: throws when no row has the id.\<close>

definition delete :: "delegate \<Rightarrow> int option \<Rightarrow> obj io" where
  "delete t i w =
     (let w1 = log (DbDelete t i) w; T = db w t in
      case i of
        None \<Rightarrow> (Inl (PrismaValidationError ''Invalid value provided for id''), w1)
      | Some k \<Rightarrow>
          (case rows T k of
             None \<Rightarrow>
               if int4 k
               then (Inl (PrismaKnownRequestError ''Record to delete does not exist.''), w1)
               else (Inl out_of_range, w1)
           | Some r \<Rightarrow>
               (Inr r,
                put_table t \<lparr>rows = (rows T)(k := None), autoincrement = autoincrement T\<rparr> w1)))"

subsection \<open>The disk of the local variant\<close>

text \<open>
  \<^verbatim>\<open>path.join(a, b)\<close> on the paths met here, which are already normal: the two parts
  with one separator between them, and \<open>a\<close> alone when \<open>b\<close> is empty. (The removal of
  \<^verbatim>\<open>.\<close> and \<^verbatim>\<open>..\<close> segments by the library is not modelled.)
\<close>

definition path_join :: "string \<Rightarrow> string \<Rightarrow> string" where
  "path_join a b = (if b = [] then a else a @ ''/'' @ b)"

text \<open>
  \<^verbatim>\<open>fs.unlink\<close>: refused where the surroundings say so, \<^verbatim>\<open>ENOENT\<close> when no file is
  there, and otherwise the file is gone.
\<close>

definition unlink :: "env \<Rightarrow> string \<Rightarrow> unit io" where
  "unlink e p w =
     (let w1 = log (FsUnlink p) w in
      if unlink_denied e p then (Inl (SystemError EACCES), w1)
      else case files w p of
             None \<Rightarrow> (Inl (SystemError ENOENT), w1)
           | Some _ \<Rightarrow> (Inr (), w1\<lparr>files := (files w)(p := None)\<rparr>))"

subsection \<open>The bucket of the Supabase variant\<close>

definition BUCKET_NAME :: string where
  "BUCKET_NAME = ''uploads''"

text \<open>
  The storage client, as its service documents it: an upload under a name already taken
  is answered with an error (no \<^verbatim>\<open>upsert\<close> is asked for); a removal lists the names
  to remove and does not report the absent ones; the public URL of an object is the
  service's base address followed by bucket and name.
\<close>

definition storage_upload :: "env \<Rightarrow> string \<Rightarrow> string \<Rightarrow> world \<Rightarrow> bool \<times> world" where
  "storage_upload e name bytes w =
     (let w1 = log (Upload name) w in
      if upload_fault e then (True, w1)
      else case bucket w name of
             Some _ \<Rightarrow> (True, w1)
           | None \<Rightarrow> (False, w1\<lparr>bucket := (bucket w)(name \<mapsto> bytes)\<rparr>))"

definition storage_remove :: "env \<Rightarrow> string list \<Rightarrow> world \<Rightarrow> bool \<times> world" where
  "storage_remove e names w =
     (let w1 = log (Remove names) w in
      if remove_fault e then (True, w1)
      else (False, w1\<lparr>bucket := (\<lambda>k. if k \<in> set names then None else bucket w k)\<rparr>))"

definition getPublicUrl :: "env \<Rightarrow> string \<Rightarrow> string" where
  "getPublicUrl e name =
     SUPABASE_URL e @ ''/storage/v1/object/public/'' @ BUCKET_NAME @ ''/'' @ name"

section \<open>Requests and responses\<close>

text \<open>
  \<^verbatim>\<open>req.file\<close>: multer's disk storage names the stored file (\<^verbatim>\<open>filename\<close>); its memory
  storage keeps the bytes in \<^verbatim>\<open>buffer\<close> and sets no \<^verbatim>\<open>filename\<close>.
\<close>

record multer_file =
  filename :: "string option"
  originalname :: string
  buffer :: string

text \<open>
  \<^verbatim>\<open>parseInt_id\<close> is the value of \<^verbatim>\<open>parseInt(req.params.id)\<close>, with \<open>None\<close> for
  \<^verbatim>\<open>NaN\<close>; \<^verbatim>\<open>body\<close> is \<^verbatim>\<open>req.body\<close> and \<^verbatim>\<open>req_file\<close> is \<^verbatim>\<open>req.file\<close>.
\<close>

record request =
  parseInt_id :: "int option"
  body :: obj
  req_file :: "multer_file option"

datatype content =
    Json "obj option"
  | JsonError string "string option"
  | Send string
  | Empty

record response =
  status :: nat
  content :: content

text \<open>\<^verbatim>\<open>res.json(x)\<close>, \<^verbatim>\<open>res.status(n).json({ error, details })\<close>, \<^verbatim>\<open>res.status(n).send()\<close>\<close>

definition json :: "obj option \<Rightarrow> response" where
  "json x = \<lparr>status = 200, content = Json x\<rparr>"

definition json_error :: "nat \<Rightarrow> string \<Rightarrow> string option \<Rightarrow> response" where
  "json_error n err details = \<lparr>status = n, content = JsonError err details\<rparr>"

definition send_empty :: "nat \<Rightarrow> response" where
  "send_empty n = \<lparr>status = n, content = Empty\<rparr>"

text \<open>\<^verbatim>\<open>new Date(x)\<close> for the values a body can hold.\<close>

fun new_Date :: "env \<Rightarrow> val \<Rightarrow> val" where
  "new_Date e (Str s) = (case date_parse e s of None \<Rightarrow> InvalidDate | Some t \<Rightarrow> Date t)"
| "new_Date e Undefined = InvalidDate"
| "new_Date e Null = Date 0"
| "new_Date e (Num n) = Date n"
| "new_Date e (Date t) = Date t"
| "new_Date e InvalidDate = InvalidDate"

section \<open>The local variant: \<^verbatim>\<open>index.js\<close>\<close>

text \<open>
  \<^verbatim>\<open>upload.single(...)\<close> with multer's disk storage runs before the handler: it writes
  the uploaded bytes under \<^verbatim>\<open>uploads/\<close> as \<^verbatim>\<open>`${Date.now()}-${file.originalname}`\<close>
  and hands the handler the stored name; a failed write goes to the framework's error
  handling and the handler does not run.
\<close>

definition upload_single :: "env \<Rightarrow> request \<Rightarrow> request io" where
  "upload_single e req w =
     (case req_file req of
        None \<Rightarrow> (Inr req, w)
      | Some f \<Rightarrow>
          (let name = now e @ ''-'' @ originalname f;
               uploadDir = path_join (dirname e) ''uploads'';
               w1 = log (FsWrite (path_join uploadDir name)) w in
           if disk_fault e then (Inl (SystemError EACCES), w1)
           else (Inr (req\<lparr>req_file := Some (f\<lparr>filename := Some name\<rparr>)\<rparr>),
                 w1\<lparr>files := (files w)(path_join uploadDir name \<mapsto> buffer f)\<rparr>)))"

definition getLocalFileUrl :: "string option \<Rightarrow> string" where
  "getLocalFileUrl name = ''/uploads/'' @ template name"

text \<open>\<^verbatim>\<open>filePath.replace(/^\//, '')\<close>\<close>

fun strip_slash :: "string \<Rightarrow> string" where
  "strip_slash [] = []"
| "strip_slash (c # cs) = (if c = CHR ''/'' then cs else c # cs)"

definition deleteLocalFile :: "env \<Rightarrow> val \<Rightarrow> unit io" where
  "deleteLocalFile e filePath =
     try_catch
       (case filePath of
          Str s \<Rightarrow> unlink e (path_join (dirname e) (strip_slash s))
        | _ \<Rightarrow> throw (TypeError ''filePath.replace is not a function''))
       (\<lambda>error. if code error \<noteq> Some ENOENT
                then throw (Error ''Failed to delete local file'')
                else return ())"

text \<open>An identifier the file uses and nowhere defines or imports.\<close>

definition not_defined :: "string \<Rightarrow> 'a io" where
  "not_defined name = throw (ReferenceError (name @ '' is not defined''))"

subsection \<open>News\<close>

definition get_news_local :: "env \<Rightarrow> request \<Rightarrow> response io" where
  "get_news_local e req =
     await (findUnique news (parseInt_id req)) (\<lambda>newsItem.
       return (json newsItem))"

definition post_news_local :: "env \<Rightarrow> request \<Rightarrow> response io" where
  "post_news_local e req =
     try_catch
       (let image = (case req_file req of
                       Some f \<Rightarrow> Str (getLocalFileUrl (filename f))
                     | None \<Rightarrow> Null) in
        await (create news
                 [(''title'', body req ''title''),
                  (''description'', body req ''description''),
                  (''image'', image),
                  (''publishedAt'', new_Date e (body req ''publishedAt''))]) (\<lambda>newNews.
          return (json (Some newNews))))
       (\<lambda>error. return (json_error 500 ''Failed to create news'' (Some (message error))))"

definition put_news_local :: "env \<Rightarrow> request \<Rightarrow> response io" where
  "put_news_local e req =
     try_catch
       (await (findUnique news (parseInt_id req)) (\<lambda>found.
          case found of
            None \<Rightarrow> return (json_error 404 ''News not found'' None)
          | Some existingNews \<Rightarrow>
              await (case req_file req of
                       None \<Rightarrow> return Null
                     | Some f \<Rightarrow>
                         (let newImage = Str (getLocalFileUrl (filename f)) in
                          await (if truthy (existingNews ''image'')
                                 then deleteLocalFile e (existingNews ''image'')
                                 else return ()) (\<lambda>_.
                            return newImage))) (\<lambda>newImage.
                await (update news (parseInt_id req)
                         [(''title'', body req ''title''),
                          (''description'', body req ''description''),
                          (''image'', or_js newImage (existingNews ''image'')),
                          (''publishedAt'', new_Date e (body req ''publishedAt''))]) (\<lambda>updatedNews.
                  return (json (Some updatedNews))))))
       (\<lambda>error. return (json_error 500 ''Failed to update news'' (Some (message error))))"

definition delete_news_local :: "env \<Rightarrow> request \<Rightarrow> response io" where
  "delete_news_local e req =
     try_catch
       (await (findUnique news (parseInt_id req)) (\<lambda>found.
          case found of
            None \<Rightarrow> return (json_error 404 ''News not found'' None)
          | Some existingNews \<Rightarrow>
              await (if truthy (existingNews ''image'')
                     then deleteLocalFile e (existingNews ''image'')
                     else return ()) (\<lambda>_.
                await (delete news (parseInt_id req)) (\<lambda>_.
                  return (send_empty 204)))))
       (\<lambda>error. return (json_error 500 ''Failed to delete news'' (Some (message error))))"

text \<open>A route is its middleware followed by its handler.\<close>

definition route_local :: "(env \<Rightarrow> request \<Rightarrow> response io) \<Rightarrow> env \<Rightarrow> request \<Rightarrow> response io" where
  "route_local handler e req = await (upload_single e req) (handler e)"

subsection \<open>Struktur organisasi, staff and teachers\<close>

text \<open>
  These routes call \<^verbatim>\<open>uploadToSupabase\<close> and \<^verbatim>\<open>deleteFromSupabase\<close>, which
  \<^verbatim>\<open>index.js\<close> neither defines nor imports. In the two \<^verbatim>\<open>POST\<close> handlers the call
  stands before the \<^verbatim>\<open>try\<close>.
\<close>

definition post_strukturOrganisasi_local :: "env \<Rightarrow> request \<Rightarrow> response io" where
  "post_strukturOrganisasi_local e req =
     await (case req_file req of
              Some f \<Rightarrow> await (not_defined ''uploadToSupabase'') (\<lambda>url. return (Str url))
            | None \<Rightarrow> return Null) (\<lambda>image.
       try_catch
         (await (create strukturOrganisasi
                   [(''role'', body req ''role''),
                    (''name'', body req ''name''),
                    (''image'', image)]) (\<lambda>newPerson.
            return (json (Some newPerson))))
         (\<lambda>error. return (json_error 500 ''Failed to create struktur organisasi'' None)))"

definition put_strukturOrganisasi_local :: "env \<Rightarrow> request \<Rightarrow> response io" where
  "put_strukturOrganisasi_local e req =
     try_catch
       (await (findUnique strukturOrganisasi (parseInt_id req)) (\<lambda>found.
          case found of
            None \<Rightarrow> return (json_error 404 ''Struktur Organisasi not found'' None)
          | Some existingPerson \<Rightarrow>
              await (case req_file req of
                       None \<Rightarrow> return Null
                     | Some f \<Rightarrow>
                         await (not_defined ''uploadToSupabase'') (\<lambda>url.
                           await (if truthy (existingPerson ''image'')
                                  then not_defined ''deleteFromSupabase''
                                  else return ()) (\<lambda>_.
                             return (Str url)))) (\<lambda>newImage.
                await (update strukturOrganisasi (parseInt_id req)
                         [(''role'', body req ''role''),
                          (''name'', body req ''name''),
                          (''image'', or_js newImage (existingPerson ''image''))]) (\<lambda>updatedPerson.
                  return (json (Some updatedPerson))))))
       (\<lambda>error. return (json_error 500 ''Failed to update struktur organisasi'' None))"

definition delete_strukturOrganisasi_local :: "env \<Rightarrow> request \<Rightarrow> response io" where
  "delete_strukturOrganisasi_local e req =
     (case parseInt_id req of
        None \<Rightarrow> return (json_error 400 ''Invalid ID'' None)
      | Some parsedId \<Rightarrow>
          try_catch
            (await (findUnique strukturOrganisasi (Some parsedId)) (\<lambda>found.
               case found of
                 None \<Rightarrow> return (json_error 404 ''Struktur Organisasi not found'' None)
               | Some existingPerson \<Rightarrow>
                   await (if truthy (existingPerson ''image'')
                          then not_defined ''deleteFromSupabase''
                          else return ()) (\<lambda>_.
                     await (delete strukturOrganisasi (Some parsedId)) (\<lambda>_.
                       return (send_empty 204)))))
            (\<lambda>error. return \<lparr>status = 500, content = Send ''Error deleting struktur organisasi''\<rparr>))"

definition post_staffandteachers_local :: "env \<Rightarrow> request \<Rightarrow> response io" where
  "post_staffandteachers_local e req =
     await (case req_file req of
              Some f \<Rightarrow> await (not_defined ''uploadToSupabase'') (\<lambda>url. return (Str url))
            | None \<Rightarrow> return Null) (\<lambda>image.
       try_catch
         (await (create staffAndTeacher
                   [(''name'', body req ''name''),
                    (''role'', body req ''role''),
                    (''image'', image)]) (\<lambda>newStaffAndTeacher.
            return \<lparr>status = 201, content = Json (Some newStaffAndTeacher)\<rparr>))
         (\<lambda>error. return (json_error 500 ''Failed to create staff or teacher'' None)))"

definition put_staffandteachers_local :: "env \<Rightarrow> request \<Rightarrow> response io" where
  "put_staffandteachers_local e req =
     try_catch
       (await (findUnique staffAndTeacher (parseInt_id req)) (\<lambda>found.
          case found of
            None \<Rightarrow> return (json_error 404 ''Staff or teacher not found'' None)
          | Some existingStaffAndTeacher \<Rightarrow>
              await (case req_file req of
                       None \<Rightarrow> return (existingStaffAndTeacher ''image'')
                     | Some f \<Rightarrow>
                         await (not_defined ''uploadToSupabase'') (\<lambda>url.
                           await (if truthy (existingStaffAndTeacher ''image'')
                                  then not_defined ''deleteFromSupabase''
                                  else return ()) (\<lambda>_.
                             return (Str url)))) (\<lambda>newImage.
                await (update staffAndTeacher (parseInt_id req)
                         [(''name'', body req ''name''),
                          (''role'', body req ''role''),
                          (''image'', newImage)]) (\<lambda>updatedStaffAndTeacher.
                  return (json (Some updatedStaffAndTeacher))))))
       (\<lambda>error. return (json_error 500 ''Failed to update staff or teacher'' None))"

definition delete_staffandteachers_local :: "env \<Rightarrow> request \<Rightarrow> response io" where
  "delete_staffandteachers_local e req =
     try_catch
       (await (findUnique staffAndTeacher (parseInt_id req)) (\<lambda>found.
          case found of
            None \<Rightarrow> return (json_error 404 ''Staff or teacher not found'' None)
          | Some existingStaffAndTeacher \<Rightarrow>
              await (if truthy (existingStaffAndTeacher ''image'')
                     then not_defined ''deleteFromSupabase''
                     else return ()) (\<lambda>_.
                await (delete staffAndTeacher (parseInt_id req)) (\<lambda>_.
                  return (send_empty 204)))))
       (\<lambda>error. return (json_error 500 ''Failed to delete staff or teacher'' None))"

section \<open>The Supabase variant\<close>

text \<open>
  \<^verbatim>\<open>upload.single(...)\<close> with multer's memory storage: the handler receives the bytes
  in \<^verbatim>\<open>req.file.buffer\<close>; nothing is written and \<^verbatim>\<open>req.file.filename\<close> is not set.
\<close>

definition memory_single :: "request \<Rightarrow> request" where
  "memory_single req =
     req\<lparr>req_file := (case req_file req of
                         None \<Rightarrow> None
                       | Some f \<Rightarrow> Some (f\<lparr>filename := None\<rparr>))\<rparr>"

definition route_supabase :: "(env \<Rightarrow> request \<Rightarrow> response io) \<Rightarrow> env \<Rightarrow> request \<Rightarrow> response io" where
  "route_supabase handler e req = handler e (memory_single req)"

definition uploadToSupabase :: "env \<Rightarrow> multer_file \<Rightarrow> string io" where
  "uploadToSupabase e f w =
     (let uniqueFilename = now e @ ''-'' @ originalname f in
      case storage_upload e uniqueFilename (buffer f) w of
        (True, w1) \<Rightarrow> (Inl (Error ''Failed to upload file to Supabase''), w1)
      | (False, w1) \<Rightarrow> (Inr (getPublicUrl e uniqueFilename), w1))"

text \<open>\<^verbatim>\<open>s.replace(pat, rep)\<close> with a string pattern: the first occurrence only.\<close>

fun replace_first :: "string \<Rightarrow> string \<Rightarrow> string \<Rightarrow> string" where
  "replace_first pat rep [] = (if pat = [] then rep else [])"
| "replace_first pat rep (c # cs) =
     (if prefix pat (c # cs) then rep @ drop (length pat) (c # cs)
      else c # replace_first pat rep cs)"

definition deleteFromSupabase :: "env \<Rightarrow> val \<Rightarrow> unit io" where
  "deleteFromSupabase e fileUrl =
     (case fileUrl of
        Str s \<Rightarrow>
          (\<lambda>w. let filePath =
                     replace_first
                       (SUPABASE_URL e @ ''/storage/v1/object/public/'' @ BUCKET_NAME @ ''/'') [] s in
                case storage_remove e [filePath] w of
                  (True, w1) \<Rightarrow> (Inl (Error ''Failed to delete file from Supabase''), w1)
                | (False, w1) \<Rightarrow> (Inr (), w1))
      | _ \<Rightarrow> throw (TypeError ''fileUrl.replace is not a function''))"

subsection \<open>News and announcements\<close>

definition get_news_supabase :: "env \<Rightarrow> request \<Rightarrow> response io" where
  "get_news_supabase e req =
     await (findUnique news (parseInt_id req)) (\<lambda>newsItem.
       return (json newsItem))"

definition post_news_supabase :: "env \<Rightarrow> request \<Rightarrow> response io" where
  "post_news_supabase e req =
     try_catch
       (await (case req_file req of
                 Some f \<Rightarrow> await (uploadToSupabase e f) (\<lambda>url. return (Str url))
               | None \<Rightarrow> return Null) (\<lambda>image.
          await (create news
                   [(''title'', body req ''title''),
                    (''description'', body req ''description''),
                    (''image'', image),
                    (''publishedAt'', new_Date e (body req ''publishedAt''))]) (\<lambda>newNews.
            return (json (Some newNews)))))
       (\<lambda>error. return (json_error 500 ''Failed to create news'' (Some (message error))))"

definition put_news_supabase :: "env \<Rightarrow> request \<Rightarrow> response io" where
  "put_news_supabase e req =
     try_catch
       (await (findUnique news (parseInt_id req)) (\<lambda>found.
          case found of
            None \<Rightarrow> return (json_error 404 ''News not found'' None)
          | Some existingNews \<Rightarrow>
              await (case req_file req of
                       None \<Rightarrow> return Null
                     | Some f \<Rightarrow>
                         await (uploadToSupabase e f) (\<lambda>url.
                           await (if truthy (existingNews ''image'')
                                  then deleteFromSupabase e (existingNews ''image'')
                                  else return ()) (\<lambda>_.
                             return (Str url)))) (\<lambda>newImage.
                await (update news (parseInt_id req)
                         [(''title'', body req ''title''),
                          (''description'', body req ''description''),
                          (''image'', or_js newImage (existingNews ''image'')),
                          (''publishedAt'', new_Date e (body req ''publishedAt''))]) (\<lambda>updatedNews.
                  return (json (Some updatedNews))))))
       (\<lambda>error. return (json_error 500 ''Failed to update news'' (Some (message error))))"

definition delete_news_supabase :: "env \<Rightarrow> request \<Rightarrow> response io" where
  "delete_news_supabase e req =
     try_catch
       (await (findUnique news (parseInt_id req)) (\<lambda>found.
          case found of
            None \<Rightarrow> return (json_error 404 ''News not found'' None)
          | Some existingNews \<Rightarrow>
              await (if truthy (existingNews ''image'')
                     then deleteFromSupabase e (existingNews ''image'')
                     else return ()) (\<lambda>_.
                await (delete news (parseInt_id req)) (\<lambda>_.
                  return (send_empty 204)))))
       (\<lambda>error. return (json_error 500 ''Failed to delete news'' (Some (message error))))"

definition get_announcements_supabase :: "env \<Rightarrow> request \<Rightarrow> response io" where
  "get_announcements_supabase e req =
     await (findUnique announcement (parseInt_id req)) (\<lambda>found.
       return (json found))"

subsection \<open>Headmaster message, staff and teachers\<close>

text \<open>
  These handlers of the Supabase variant build the reference from
  \<^verbatim>\<open>req.file.filename\<close> and call neither \<^verbatim>\<open>uploadToSupabase\<close> nor
  \<^verbatim>\<open>deleteFromSupabase\<close>.
\<close>

definition put_headmaster_message_supabase :: "env \<Rightarrow> request \<Rightarrow> response io" where
  "put_headmaster_message_supabase e req =
     (let image = (case req_file req of
                     Some f \<Rightarrow> Str (''/uploads/'' @ template (filename f))
                   | None \<Rightarrow> Null) in
      try_catch
        (await (update headmasterMessage (parseInt_id req)
                  [(''message'', body req ''message''),
                   (''description'', body req ''description''),
                   (''image'', or_js image Undefined),
                   (''headmasterName'', body req ''headmasterName'')]) (\<lambda>updatedHeadmasterMessage.
           return (json (Some updatedHeadmasterMessage))))
        (\<lambda>error. return (json_error 500 ''Failed to update headmaster message'' None)))"

definition post_staffandteachers_supabase :: "env \<Rightarrow> request \<Rightarrow> response io" where
  "post_staffandteachers_supabase e req =
     (let image = (case req_file req of
                     Some f \<Rightarrow> Str (''/uploads/'' @ template (filename f))
                   | None \<Rightarrow> Null) in
      try_catch
        (await (create staffAndTeacher
                  [(''name'', body req ''name''),
                   (''role'', body req ''role''),
                   (''image'', image)]) (\<lambda>newStaffAndTeacher.
           return \<lparr>status = 201, content = Json (Some newStaffAndTeacher)\<rparr>))
        (\<lambda>error. return (json_error 500 ''Failed to create staff or teacher'' None)))"

definition put_staffandteachers_supabase :: "env \<Rightarrow> request \<Rightarrow> response io" where
  "put_staffandteachers_supabase e req =
     (let image = (case req_file req of
                     Some f \<Rightarrow> Str (''/uploads/'' @ template (filename f))
                   | None \<Rightarrow> Null) in
      await (update staffAndTeacher (parseInt_id req)
               [(''name'', body req ''name''),
                (''role'', body req ''role''),
                (''image'', or_js image Undefined)]) (\<lambda>updatedStaffAndTeacher.
        return (json (Some updatedStaffAndTeacher))))"

section \<open>Observations and sample runs\<close>

text \<open>The attachment reference of the row with a given id, if there is such a row.\<close>

definition image_at :: "world \<Rightarrow> delegate \<Rightarrow> int \<Rightarrow> val option" where
  "image_at w t i = (case rows (db w t) i of None \<Rightarrow> None | Some r \<Rightarrow> Some (r ''image''))"

text \<open>The status of the response a handler sent; \<open>None\<close> when its promise was rejected
  and the handler sent nothing.\<close>

definition answered :: "(exn + response) \<times> world \<Rightarrow> nat option" where
  "answered r = (case fst r of Inl x \<Rightarrow> None | Inr resp \<Rightarrow> Some (status resp))"

text \<open>In a trace, the first \<open>a\<close> comes before every \<open>b\<close>, and some \<open>b\<close> follows it.\<close>

fun precedes :: "event \<Rightarrow> event \<Rightarrow> event list \<Rightarrow> bool" where
  "precedes a b [] = False"
| "precedes a b (x # xs) =
     (if x = a then b \<in> set xs else if x = b then False else precedes a b xs)"

subsection \<open>Sample surroundings, stores and requests\<close>

definition env0 :: env where
  "env0 = \<lparr>dirname = ''/srv'', SUPABASE_URL = ''https://sb.example'', now = ''5'',
            date_parse = (\<lambda>s. if s = ''2025-01-01'' then Some 1735689600000 else None),
            unlink_denied = (\<lambda>p. False), disk_fault = False,
            upload_fault = False, remove_fault = False\<rparr>"

definition env_unlink_denied :: env where
  "env_unlink_denied = env0\<lparr>unlink_denied := (\<lambda>p. True)\<rparr>"

definition env_remove_fault :: env where
  "env_remove_fault = env0\<lparr>remove_fault := True\<rparr>"

definition env_upload_fault :: env where
  "env_upload_fault = env0\<lparr>upload_fault := True\<rparr>"

definition env_disk_fault :: env where
  "env_disk_fault = env0\<lparr>disk_fault := True\<rparr>"

definition empty_table :: table where
  "empty_table = \<lparr>rows = Map.empty, autoincrement = 0\<rparr>"

definition old_url :: string where
  "old_url = ''https://sb.example/storage/v1/object/public/uploads/1-old.png''"

text \<open>The Supabase variant's store: one news item, one headmaster message and one
  staff member, each with its image in the bucket.\<close>

definition world_supabase :: world where
  "world_supabase =
     \<lparr>db = (\<lambda>t. empty_table)
        (news := \<lparr>rows = [1 \<mapsto> field [(''id'', Num 1), (''title'', Str ''Open day''),
                                      (''description'', Str ''All welcome''),
                                      (''image'', Str old_url), (''publishedAt'', Date 0)]],
                  autoincrement = 1\<rparr>,
         headmasterMessage :=
                 \<lparr>rows = [1 \<mapsto> field [(''id'', Num 1), (''message'', Str ''Welcome''),
                                      (''description'', Str ''New year''),
                                      (''image'', Str old_url),
                                      (''headmasterName'', Str ''Head'')]],
                  autoincrement = 1\<rparr>,
         staffAndTeacher :=
                 \<lparr>rows = [1 \<mapsto> field [(''id'', Num 1), (''name'', Str ''Ani''),
                                      (''role'', Str ''Teacher''), (''image'', Str old_url)]],
                  autoincrement = 1\<rparr>),
      files = Map.empty,
      bucket = [''1-old.png'' \<mapsto> ''OLD''],
      trace = []\<rparr>"

text \<open>The local variant's store: one news item with its image on disk, and two staff
  members, the second with an empty image string.\<close>

definition world_local :: world where
  "world_local =
     \<lparr>db = (\<lambda>t. empty_table)
        (news := \<lparr>rows = [1 \<mapsto> field [(''id'', Num 1), (''title'', Str ''Open day''),
                                      (''description'', Str ''All welcome''),
                                      (''image'', Str ''/uploads/1-old.png''),
                                      (''publishedAt'', Date 0)]],
                  autoincrement = 1\<rparr>,
         staffAndTeacher :=
                 \<lparr>rows = [1 \<mapsto> field [(''id'', Num 1), (''name'', Str ''Ani''),
                                      (''role'', Str ''Teacher''),
                                      (''image'', Str ''/uploads/2-ani.png'')],
                          2 \<mapsto> field [(''id'', Num 2), (''name'', Str ''Budi''),
                                      (''role'', Str ''Staff''), (''image'', Str [])]],
                  autoincrement = 2\<rparr>),
      files = [''/srv/uploads/1-old.png'' \<mapsto> ''OLD'', ''/srv/uploads/2-ani.png'' \<mapsto> ''ANI''],
      bucket = Map.empty,
      trace = []\<rparr>"

definition photo :: multer_file where
  "photo = \<lparr>filename = None, originalname = ''a.png'', buffer = ''NEW''\<rparr>"

definition news_body :: obj where
  "news_body = field [(''title'', Str ''Sports day''), (''description'', Str ''Come along''),
                      (''publishedAt'', Str ''2025-01-01'')]"

definition person_body :: obj where
  "person_body = field [(''name'', Str ''Citra''), (''role'', Str ''Teacher''),
                        (''message'', Str ''Hello''), (''description'', Str ''Greeting''),
                        (''headmasterName'', Str ''Head'')]"

definition req_news_upload :: request where
  "req_news_upload = \<lparr>parseInt_id = Some 1, body = news_body, req_file = Some photo\<rparr>"

definition req_news_bad_date :: request where
  "req_news_bad_date =
     \<lparr>parseInt_id = Some 1,
      body = field [(''title'', Str ''Sports day''), (''description'', Str ''Come along''),
                    (''publishedAt'', Str ''soon'')],
      req_file = Some photo\<rparr>"

definition req_news_plain :: request where
  "req_news_plain = \<lparr>parseInt_id = Some 1, body = news_body, req_file = None\<rparr>"

definition req_news_unknown :: request where
  "req_news_unknown = \<lparr>parseInt_id = Some 7, body = news_body, req_file = None\<rparr>"

definition req_news_out_of_range :: request where
  "req_news_out_of_range = \<lparr>parseInt_id = Some 2147483648, body = news_body, req_file = None\<rparr>"

definition req_news_not_a_number :: request where
  "req_news_not_a_number = \<lparr>parseInt_id = None, body = news_body, req_file = None\<rparr>"

definition req_person_upload :: request where
  "req_person_upload = \<lparr>parseInt_id = Some 1, body = person_body, req_file = Some photo\<rparr>"

definition req_person_unknown :: request where
  "req_person_unknown = \<lparr>parseInt_id = Some 7, body = person_body, req_file = None\<rparr>"

definition req_person_second :: request where
  "req_person_second = \<lparr>parseInt_id = Some 2, body = person_body, req_file = None\<rparr>"

section \<open>Facts about the collaborators\<close>

lemmas io_defs = return_def throw_def await_def try_catch_def

text \<open>The result and the world left behind, taken apart.\<close>

lemma await_unfold:
  "await m f w = (case fst (m w) of Inl x \<Rightarrow> (Inl x, snd (m w)) | Inr a \<Rightarrow> f a (snd (m w)))"
  by (simp add: await_def split: prod.splits sum.splits)

lemma try_catch_unfold:
  "try_catch m h w =
     (case fst (m w) of Inl x \<Rightarrow> h x (snd (m w)) | Inr a \<Rightarrow> (Inr a, snd (m w)))"
  by (simp add: try_catch_def split: prod.splits sum.splits)

lemmas io_unfold = return_def throw_def await_unfold try_catch_unfold

text \<open>A lookup changes nothing; a stored row is found under its id.\<close>

lemma findUnique_world [simp]: "snd (findUnique t i w) = w"
  by (simp add: findUnique_def split: option.splits)

lemma findUnique_stored:
  "rows (db w t) k = Some r \<Longrightarrow> findUnique t (Some k) w = (Inr (Some r), w)"
  by (simp add: findUnique_def)

lemma findUnique_Some:
  "findUnique t i w = (Inr (Some r), w') \<Longrightarrow> \<exists>k. i = Some k \<and> rows (db w t) k = Some r"
  by (auto simp add: findUnique_def split: option.splits if_splits)

text \<open>The \<^verbatim>\<open>image\<close> property of the object literals the handlers pass on.\<close>

lemma field_image [simp]:
  "field [(''title'', x), (''description'', y), (''image'', v), z] ''image'' = v"
  "field [(''message'', x), (''description'', y), (''image'', v), z] ''image'' = v"
  "field [(''name'', x), (''role'', y), (''image'', v)] ''image'' = v"
  "field [(''role'', x), (''name'', y), (''image'', v)] ''image'' = v"
  by (simp_all add: field_def)

text \<open>An update whose data leave \<^verbatim>\<open>image\<close> out, or repeat the stored value, changes
  no row's reference, whether it succeeds or throws.\<close>

lemma update_keeps_image:
  "field d ''image'' = Undefined \<Longrightarrow> image_at (snd (update t i d w)) t' j = image_at w t' j"
  by (auto simp add: update_def image_at_def Let_def log_def put_table_def patch_row_def
      split: option.splits)

lemma update_same_image:
  "field d ''image'' = (case rows (db w t) k of None \<Rightarrow> Undefined | Some r \<Rightarrow> r ''image'') \<Longrightarrow>
   image_at (snd (update t (Some k) d w)) t' j = image_at w t' j"
  by (auto simp add: update_def image_at_def Let_def log_def put_table_def patch_row_def
      split: option.splits)

text \<open>What the storage helpers return and leave behind.\<close>

lemma deleteLocalFile_result:
  "deleteLocalFile e (Str s) w =
     (let p = path_join (dirname e) (strip_slash s) in
      if unlink_denied e p
      then (Inl (Error ''Failed to delete local file''), log (FsUnlink p) w)
      else (Inr (), (log (FsUnlink p) w)\<lparr>files := (files w)(p := None)\<rparr>))"
  by (auto simp add: deleteLocalFile_def io_defs unlink_def Let_def log_def fun_upd_idem
      split: option.splits)

lemma deleteFromSupabase_result:
  "deleteFromSupabase e (Str s) w =
     (let k = replace_first
                (SUPABASE_URL e @ ''/storage/v1/object/public/'' @ BUCKET_NAME @ ''/'') [] s in
      if remove_fault e
      then (Inl (Error ''Failed to delete file from Supabase''), log (Remove [k]) w)
      else (Inr (), (log (Remove [k]) w)\<lparr>bucket := (bucket w)(k := None)\<rparr>))"
  by (auto simp add: deleteFromSupabase_def storage_remove_def Let_def log_def fun_eq_iff
      intro!: world.equality)

lemma uploadToSupabase_result:
  "uploadToSupabase e f w =
     (let n = now e @ ''-'' @ originalname f in
      if upload_fault e \<or> bucket w n \<noteq> None
      then (Inl (Error ''Failed to upload file to Supabase''), log (Upload n) w)
      else (Inr (getPublicUrl e n),
            (log (Upload n) w)\<lparr>bucket := (bucket w)(n \<mapsto> buffer f)\<rparr>))"
  by (auto simp add: uploadToSupabase_def storage_upload_def Let_def log_def
      split: option.splits)

lemma uploadToSupabase_memory [simp]:
  "uploadToSupabase e (f\<lparr>filename := x\<rparr>) = uploadToSupabase e f"
  by (simp add: uploadToSupabase_def fun_eq_iff)

lemma delete_result:
  "rows (db w t) i = Some r \<Longrightarrow>
   delete t (Some i) w =
     (Inr r, w\<lparr>trace := trace w @ [DbDelete t (Some i)],
               db := (db w)(t := \<lparr>rows = (rows (db w t))(i := None),
                                   autoincrement = autoincrement (db w t)\<rparr>)\<rparr>)"
  by (simp add: delete_def Let_def log_def put_table_def)

lemma getPublicUrl_nonempty [simp]: "getPublicUrl e n \<noteq> []"
  by (simp add: getPublicUrl_def)

lemma update_result:
  "rows (db w t) k = Some r \<Longrightarrow>
   update t (Some k) d w =
     (if update_ok t d
      then (Inr (patch_row t r d),
            w\<lparr>trace := trace w @ [DbUpdate t (Some k)],
              db := (db w)(t := \<lparr>rows = (rows (db w t))(k \<mapsto> patch_row t r d),
                                  autoincrement = autoincrement (db w t)\<rparr>)\<rparr>)
      else (Inl (PrismaValidationError ''Invalid update data''),
            w\<lparr>trace := trace w @ [DbUpdate t (Some k)]\<rparr>))"
  by (simp add: update_def Let_def log_def put_table_def)

lemma patch_row_image:
  "map_of (model t) ''image'' \<noteq> None \<Longrightarrow> field d ''image'' \<noteq> Undefined \<Longrightarrow>
   patch_row t r d ''image'' = field d ''image''"
  by (auto simp add: patch_row_def)

lemma new_row_image:
  "map_of (model t) ''image'' \<noteq> None \<Longrightarrow>
   new_row t i d ''image'' = (if field d ''image'' = Undefined then Null else field d ''image'')"
  by (auto simp add: new_row_def)

lemma create_result:
  "create t d w =
     (if \<not> create_ok t d
      then (Inl (PrismaValidationError ''Invalid create data''), log (DbCreate t) w)
      else if \<not> int4 (autoincrement (db w t) + 1) then (Inl out_of_range, log (DbCreate t) w)
      else case rows (db w t) (autoincrement (db w t) + 1) of
             Some r \<Rightarrow>
               (Inl (PrismaKnownRequestError ''Unique constraint failed on the fields: (id)''),
                (log (DbCreate t) w)
                  \<lparr>db := (db w)(t := \<lparr>rows = rows (db w t),
                                       autoincrement = autoincrement (db w t) + 1\<rparr>)\<rparr>)
           | None \<Rightarrow>
               (Inr (new_row t (autoincrement (db w t) + 1) d),
                (log (DbCreate t) w)
                  \<lparr>db := (db w)(t := \<lparr>rows = (rows (db w t))
                                           (autoincrement (db w t) + 1 \<mapsto>
                                              new_row t (autoincrement (db w t) + 1) d),
                                       autoincrement = autoincrement (db w t) + 1\<rparr>)\<rparr>))"
  by (simp add: create_def Let_def log_def put_table_def split: option.splits)

section \<open>Reading by id\<close>

text \<open>
  The claim C10, that every get-by-id request whose id matches no record is answered with
  status 200 and the body \<^verbatim>\<open>null\<close>, is false at these inputs: no news item has the id
  2147483648, which lies outside the id column's range, and none is addressed by a path
  parameter that is not a number; for both the query layer throws, the handlers have no
  \<^verbatim>\<open>try\<close>, and nothing is answered.
\<close>

theorem get_by_id_unanswered_counterexample:
  "rows (db world_local news) 2147483648 = None \<and>
   get_news_local env0 req_news_out_of_range world_local = (Inl out_of_range, world_local) \<and>
   answered (get_news_local env0 req_news_out_of_range world_local) = None \<and>
   rows (db world_supabase news) 2147483648 = None \<and>
   answered (get_news_supabase env0 req_news_out_of_range world_supabase) = None \<and>
   answered (get_news_local env0 req_news_not_a_number world_local) = None \<and>
   answered (get_news_supabase env0 req_news_not_a_number world_supabase) = None"
  by (simp add: req_news_out_of_range_def req_news_not_a_number_def world_local_def
      world_supabase_def empty_table_def answered_def get_news_local_def
      get_news_supabase_def io_defs findUnique_def int4_def)

text \<open>
  C10, amended. A get-by-id request whose id is an integer within the range of the 32-bit
  id column and matches no record is answered, in both variants, with status 200 and the
  JSON body \<^verbatim>\<open>null\<close>, not with a not-found error. When the id matches no record and
  lies outside that range, or the path parameter is not a number, the handler answers
  nothing. No read changes the store: the world after any of these handlers is the world
  before.
\<close>

theorem get_by_id_unmatched_in_range_is_null:
  "(parseInt_id req = Some i \<and> int4 i \<and> rows (db w news) i = None \<longrightarrow>
      get_news_local e req w = (Inr \<lparr>status = 200, content = Json None\<rparr>, w) \<and>
      get_news_supabase e req w = (Inr \<lparr>status = 200, content = Json None\<rparr>, w)) \<and>
   (parseInt_id req = Some i \<and> int4 i \<and> rows (db w announcement) i = None \<longrightarrow>
      get_announcements_supabase e req w = (Inr \<lparr>status = 200, content = Json None\<rparr>, w)) \<and>
   (parseInt_id req = Some i \<and> \<not> int4 i \<and> rows (db w news) i = None \<longrightarrow>
      answered (get_news_local e req w) = None \<and>
      answered (get_news_supabase e req w) = None) \<and>
   (parseInt_id req = Some i \<and> \<not> int4 i \<and> rows (db w announcement) i = None \<longrightarrow>
      answered (get_announcements_supabase e req w) = None) \<and>
   (parseInt_id req = None \<longrightarrow>
      answered (get_news_local e req w) = None \<and>
      answered (get_news_supabase e req w) = None \<and>
      answered (get_announcements_supabase e req w) = None) \<and>
   snd (get_news_local e req w) = w \<and> snd (get_news_supabase e req w) = w \<and>
   snd (get_announcements_supabase e req w) = w"
proof -
  have same: "snd (get_news_local e req w) = w" "snd (get_news_supabase e req w) = w"
    "snd (get_announcements_supabase e req w) = w"
    by (simp_all add: get_news_local_def get_news_supabase_def get_announcements_supabase_def
        io_unfold split: sum.splits)
  have rest:
    "(parseInt_id req = Some i \<and> int4 i \<and> rows (db w news) i = None \<longrightarrow>
        get_news_local e req w = (Inr \<lparr>status = 200, content = Json None\<rparr>, w) \<and>
        get_news_supabase e req w = (Inr \<lparr>status = 200, content = Json None\<rparr>, w)) \<and>
     (parseInt_id req = Some i \<and> int4 i \<and> rows (db w announcement) i = None \<longrightarrow>
        get_announcements_supabase e req w
          = (Inr \<lparr>status = 200, content = Json None\<rparr>, w)) \<and>
     (parseInt_id req = Some i \<and> \<not> int4 i \<and> rows (db w news) i = None \<longrightarrow>
        answered (get_news_local e req w) = None \<and>
        answered (get_news_supabase e req w) = None) \<and>
     (parseInt_id req = Some i \<and> \<not> int4 i \<and> rows (db w announcement) i = None \<longrightarrow>
        answered (get_announcements_supabase e req w) = None) \<and>
     (parseInt_id req = None \<longrightarrow>
        answered (get_news_local e req w) = None \<and>
        answered (get_news_supabase e req w) = None \<and>
        answered (get_announcements_supabase e req w) = None)"
    by (simp add: get_news_local_def get_news_supabase_def get_announcements_supabase_def
        io_defs findUnique_def json_def answered_def)
  from rest same show ?thesis by simp
qed

theorem get_by_id_unmatched_in_range_is_null_witness:
  "parseInt_id req_news_unknown = Some 7 \<and> int4 7 \<and>
   rows (db world_local news) 7 = None \<and> rows (db world_supabase news) 7 = None \<and>
   rows (db world_supabase announcement) 7 = None \<and>
   get_news_local env0 req_news_unknown world_local
     = (Inr \<lparr>status = 200, content = Json None\<rparr>, world_local) \<and>
   get_news_supabase env0 req_news_unknown world_supabase
     = (Inr \<lparr>status = 200, content = Json None\<rparr>, world_supabase) \<and>
   get_announcements_supabase env0 req_news_unknown world_supabase
     = (Inr \<lparr>status = 200, content = Json None\<rparr>, world_supabase) \<and>
   parseInt_id req_news_out_of_range = Some 2147483648 \<and> \<not> int4 2147483648 \<and>
   rows (db world_local news) 2147483648 = None \<and>
   answered (get_news_local env0 req_news_out_of_range world_local) = None \<and>
   rows (db world_supabase announcement) 2147483648 = None \<and>
   answered (get_announcements_supabase env0 req_news_out_of_range world_supabase) = None \<and>
   parseInt_id req_news_not_a_number = None \<and>
   answered (get_news_local env0 req_news_not_a_number world_local) = None"
proof -
  have id: "parseInt_id req_news_unknown = Some 7" "int4 7"
    by (simp_all add: req_news_unknown_def int4_def)
  have l: "rows (db world_local news) 7 = None"
    by (simp add: world_local_def)
  have s: "rows (db world_supabase news) 7 = None"
    by (simp add: world_supabase_def)
  have a: "rows (db world_supabase announcement) 7 = None"
    by (simp add: world_supabase_def empty_table_def)
  have big: "parseInt_id req_news_out_of_range = Some 2147483648" "\<not> int4 2147483648"
    "rows (db world_local news) 2147483648 = None"
    "rows (db world_supabase announcement) 2147483648 = None"
    by (simp_all add: req_news_out_of_range_def int4_def world_local_def world_supabase_def
        empty_table_def)
  have nan: "parseInt_id req_news_not_a_number = None"
    by (simp add: req_news_not_a_number_def)
  show ?thesis
    using get_by_id_unmatched_in_range_is_null [of req_news_unknown 7 world_local env0]
      get_by_id_unmatched_in_range_is_null [of req_news_unknown 7 world_supabase env0]
      get_by_id_unmatched_in_range_is_null
        [of req_news_out_of_range 2147483648 world_local env0]
      get_by_id_unmatched_in_range_is_null
        [of req_news_out_of_range 2147483648 world_supabase env0]
      get_by_id_unmatched_in_range_is_null [of req_news_not_a_number 0 world_local env0]
      id l s a big nan
    by simp
qed

section \<open>Updating without an upload\<close>

lemma keep_put_news_local:
  "req_file req = None \<Longrightarrow>
   image_at (snd (route_local put_news_local e req w)) news j = image_at w news j"
  by (cases "parseInt_id req")
    (simp_all add: route_local_def upload_single_def put_news_local_def io_unfold
      findUnique_def json_error_def json_def or_js_def update_same_image update_keeps_image
      split: option.splits sum.splits)

lemma keep_put_news_supabase:
  "req_file req = None \<Longrightarrow>
   image_at (snd (route_supabase put_news_supabase e req w)) news j = image_at w news j"
  by (cases "parseInt_id req")
    (simp_all add: route_supabase_def memory_single_def put_news_supabase_def io_unfold
      findUnique_def json_error_def json_def or_js_def update_same_image update_keeps_image
      split: option.splits sum.splits)

lemma keep_put_staffandteachers_supabase:
  "req_file req = None \<Longrightarrow>
   image_at (snd (route_supabase put_staffandteachers_supabase e req w)) staffAndTeacher j
     = image_at w staffAndTeacher j"
  by (simp add: route_supabase_def memory_single_def put_staffandteachers_supabase_def
      io_unfold json_def or_js_def update_keeps_image split: sum.splits)

lemma keep_put_headmaster_message_supabase:
  "req_file req = None \<Longrightarrow>
   image_at (snd (route_supabase put_headmaster_message_supabase e req w)) headmasterMessage j
     = image_at w headmasterMessage j"
  by (simp add: route_supabase_def memory_single_def put_headmaster_message_supabase_def
      io_unfold json_def json_error_def or_js_def update_keeps_image split: sum.splits)

lemma keep_put_staffandteachers_local:
  "req_file req = None \<Longrightarrow>
   image_at (snd (route_local put_staffandteachers_local e req w)) staffAndTeacher j
     = image_at w staffAndTeacher j"
  by (cases "parseInt_id req")
    (simp_all add: route_local_def upload_single_def put_staffandteachers_local_def io_unfold
      findUnique_def json_error_def json_def update_same_image update_keeps_image
      split: option.splits sum.splits)

lemma keep_put_strukturOrganisasi_local:
  "req_file req = None \<Longrightarrow>
   image_at (snd (route_local put_strukturOrganisasi_local e req w)) strukturOrganisasi j
     = image_at w strukturOrganisasi j"
  by (cases "parseInt_id req")
    (simp_all add: route_local_def upload_single_def put_strukturOrganisasi_local_def io_unfold
      findUnique_def json_error_def json_def or_js_def update_same_image update_keeps_image
      split: option.splits sum.splits)

text \<open>
  C5. An update request that carries no uploaded file leaves the attachment reference of
  every row, the addressed one included, exactly as it was, whatever the other fields of
  the request are and whether the update succeeds or fails; so no such request turns a
  reference into \<^verbatim>\<open>null\<close>. This holds for the news routes of both variants and for
  the staff, headmaster-message and struktur-organisasi routes.
\<close>

theorem update_without_upload_keeps_reference:
  "req_file req = None \<Longrightarrow>
   image_at (snd (route_local put_news_local e req w)) news j = image_at w news j \<and>
   image_at (snd (route_supabase put_news_supabase e req w)) news j = image_at w news j \<and>
   image_at (snd (route_supabase put_staffandteachers_supabase e req w)) staffAndTeacher j
     = image_at w staffAndTeacher j \<and>
   image_at (snd (route_supabase put_headmaster_message_supabase e req w)) headmasterMessage j
     = image_at w headmasterMessage j \<and>
   image_at (snd (route_local put_staffandteachers_local e req w)) staffAndTeacher j
     = image_at w staffAndTeacher j \<and>
   image_at (snd (route_local put_strukturOrganisasi_local e req w)) strukturOrganisasi j
     = image_at w strukturOrganisasi j"
  by (simp add: keep_put_news_local keep_put_news_supabase keep_put_staffandteachers_supabase
      keep_put_headmaster_message_supabase keep_put_staffandteachers_local
      keep_put_strukturOrganisasi_local)

theorem update_without_upload_keeps_reference_witness:
  "req_file req_news_plain = None \<and>
   image_at (snd (route_local put_news_local env0 req_news_plain world_local)) news 1
     = Some (Str ''/uploads/1-old.png'') \<and>
   image_at (snd (route_supabase put_news_supabase env0 req_news_plain world_supabase)) news 1
     = Some (Str old_url) \<and>
   image_at (snd (route_supabase put_staffandteachers_supabase env0 req_news_plain
                    world_supabase)) staffAndTeacher 1
     = Some (Str old_url)"
proof -
  have h: "req_file req_news_plain = None"
    by (simp add: req_news_plain_def)
  have l: "image_at world_local news 1 = Some (Str ''/uploads/1-old.png'')"
    by (simp add: image_at_def world_local_def field_def)
  have s: "image_at world_supabase news 1 = Some (Str old_url)"
    by (simp add: image_at_def world_supabase_def field_def)
  have t: "image_at world_supabase staffAndTeacher 1 = Some (Str old_url)"
    by (simp add: image_at_def world_supabase_def field_def)
  show ?thesis
    using update_without_upload_keeps_reference [OF h, of env0 world_local 1]
      update_without_upload_keeps_reference [OF h, of env0 world_supabase 1] h l s t
    by simp
qed

section \<open>Deleting a blob twice\<close>

text \<open>
  C7. Blob deletion is idempotent. On disk: deleting a reference whose file is already
  absent succeeds and changes no file; and once a deletion has succeeded the file is
  absent, a second deletion of the same reference succeeds too and changes no file. In the
  bucket: a removal of an absent object succeeds when the service answers without error,
  and after a successful removal a second one succeeds and leaves the bucket as it is.
\<close>

theorem blob_deletion_idempotent:
  "(files w (path_join (dirname e) (strip_slash s)) = None \<and>
    \<not> unlink_denied e (path_join (dirname e) (strip_slash s)) \<longrightarrow>
      fst (deleteLocalFile e (Str s) w) = Inr () \<and>
      files (snd (deleteLocalFile e (Str s) w)) = files w) \<and>
   (fst (deleteLocalFile e (Str s) w) = Inr () \<longrightarrow>
      files (snd (deleteLocalFile e (Str s) w)) (path_join (dirname e) (strip_slash s)) = None \<and>
      fst (deleteLocalFile e (Str s) (snd (deleteLocalFile e (Str s) w))) = Inr () \<and>
      files (snd (deleteLocalFile e (Str s) (snd (deleteLocalFile e (Str s) w))))
        = files (snd (deleteLocalFile e (Str s) w))) \<and>
   (bucket w (replace_first
                (SUPABASE_URL e @ ''/storage/v1/object/public/'' @ BUCKET_NAME @ ''/'') [] s)
      = None \<and> \<not> remove_fault e \<longrightarrow>
      fst (deleteFromSupabase e (Str s) w) = Inr () \<and>
      bucket (snd (deleteFromSupabase e (Str s) w)) = bucket w) \<and>
   (fst (deleteFromSupabase e (Str s) w) = Inr () \<longrightarrow>
      fst (deleteFromSupabase e (Str s) (snd (deleteFromSupabase e (Str s) w))) = Inr () \<and>
      bucket (snd (deleteFromSupabase e (Str s) (snd (deleteFromSupabase e (Str s) w))))
        = bucket (snd (deleteFromSupabase e (Str s) w)))"
  by (auto simp add: deleteLocalFile_result deleteFromSupabase_result Let_def log_def
      fun_eq_iff split: if_splits)

theorem blob_deletion_idempotent_witness:
  "files world_local (path_join (dirname env0) (strip_slash ''/uploads/gone.png'')) = None \<and>
   \<not> unlink_denied env0 (path_join (dirname env0) (strip_slash ''/uploads/gone.png'')) \<and>
   fst (deleteLocalFile env0 (Str ''/uploads/gone.png'') world_local) = Inr () \<and>
   files (snd (deleteLocalFile env0 (Str ''/uploads/gone.png'') world_local))
     = files world_local \<and>
   fst (deleteLocalFile env0 (Str ''/uploads/1-old.png'') world_local) = Inr () \<and>
   fst (deleteLocalFile env0 (Str ''/uploads/1-old.png'')
          (snd (deleteLocalFile env0 (Str ''/uploads/1-old.png'') world_local))) = Inr () \<and>
   fst (deleteFromSupabase env0 (Str old_url) world_supabase) = Inr () \<and>
   fst (deleteFromSupabase env0 (Str old_url)
          (snd (deleteFromSupabase env0 (Str old_url) world_supabase))) = Inr () \<and>
   bucket world_supabase
     (replace_first (SUPABASE_URL env0 @ ''/storage/v1/object/public/'' @ BUCKET_NAME @ ''/'')
        [] ''gone.png'') = None \<and>
   \<not> remove_fault env0 \<and>
   fst (deleteFromSupabase env0 (Str ''gone.png'') world_supabase) = Inr () \<and>
   bucket (snd (deleteFromSupabase env0 (Str ''gone.png'') world_supabase))
     = bucket world_supabase"
proof -
  have absent:
    "files world_local (path_join (dirname env0) (strip_slash ''/uploads/gone.png'')) = None"
    "\<not> unlink_denied env0 (path_join (dirname env0) (strip_slash ''/uploads/gone.png''))"
    by (simp_all add: world_local_def env0_def path_join_def)
  have first: "fst (deleteLocalFile env0 (Str ''/uploads/1-old.png'') world_local) = Inr ()"
    by (simp add: deleteLocalFile_result env0_def Let_def)
  have remote: "fst (deleteFromSupabase env0 (Str old_url) world_supabase) = Inr ()"
    by (simp add: deleteFromSupabase_result env0_def Let_def)
  have gone:
    "bucket world_supabase
       (replace_first (SUPABASE_URL env0 @ ''/storage/v1/object/public/'' @ BUCKET_NAME @ ''/'')
          [] ''gone.png'') = None"
    "\<not> remove_fault env0"
    by (simp_all add: world_supabase_def env0_def BUCKET_NAME_def)
  show ?thesis
    using blob_deletion_idempotent [of world_local env0 "''/uploads/gone.png''"]
      blob_deletion_idempotent [of world_supabase env0 "''gone.png''"] gone
      blob_deletion_idempotent [of world_local env0 "''/uploads/1-old.png''"]
      blob_deletion_idempotent [of world_supabase env0 old_url]
      absent first remote
    by simp
qed

section \<open>A failed upload\<close>

text \<open>
  C4. When a create or an update carries an uploaded file and storing it fails, the
  operation stops with the storage write error and nothing has been changed: the answer
  is status 500 with the upload error as its detail, and the world afterwards is the
  world before with one more entry in the trace, the upload attempt; no row is created or
  changed, and on update the blob referenced before is still there. In the local variant
  the write is multer's, and a failed write keeps any handler from running.
\<close>

theorem failed_upload_aborts_before_mutation:
  "req_file req = Some f \<Longrightarrow>
   (isl (fst (uploadToSupabase e f w)) \<longrightarrow>
      route_supabase post_news_supabase e req w
        = (Inr (json_error 500 ''Failed to create news''
                  (Some ''Failed to upload file to Supabase'')),
           w\<lparr>trace := trace w @ [Upload (now e @ ''-'' @ originalname f)]\<rparr>) \<and>
      (parseInt_id req = Some i \<and> rows (db w news) i \<noteq> None \<longrightarrow>
         route_supabase put_news_supabase e req w
           = (Inr (json_error 500 ''Failed to update news''
                     (Some ''Failed to upload file to Supabase'')),
              w\<lparr>trace := trace w @ [Upload (now e @ ''-'' @ originalname f)]\<rparr>))) \<and>
   (disk_fault e \<longrightarrow>
      route_local handler e req w
        = (Inl (SystemError EACCES),
           w\<lparr>trace := trace w @
              [FsWrite (path_join (path_join (dirname e) ''uploads'')
                          (now e @ ''-'' @ originalname f))]\<rparr>))"
  by (auto simp add: route_supabase_def memory_single_def post_news_supabase_def
      put_news_supabase_def route_local_def upload_single_def
      io_defs findUnique_def uploadToSupabase_result Let_def log_def split: if_splits)

theorem failed_upload_aborts_before_mutation_witness:
  "req_file req_news_upload = Some photo \<and>
   isl (fst (uploadToSupabase env_upload_fault photo world_supabase)) \<and>
   parseInt_id req_news_upload = Some 1 \<and> rows (db world_supabase news) 1 \<noteq> None \<and>
   route_supabase post_news_supabase env_upload_fault req_news_upload world_supabase
     = (Inr (json_error 500 ''Failed to create news''
               (Some ''Failed to upload file to Supabase'')),
        world_supabase\<lparr>trace := [Upload ''5-a.png'']\<rparr>) \<and>
   route_supabase put_news_supabase env_upload_fault req_news_upload world_supabase
     = (Inr (json_error 500 ''Failed to update news''
               (Some ''Failed to upload file to Supabase'')),
        world_supabase\<lparr>trace := [Upload ''5-a.png'']\<rparr>) \<and>
   disk_fault env_disk_fault \<and>
   route_local put_news_local env_disk_fault req_news_upload world_local
     = (Inl (SystemError EACCES),
        world_local\<lparr>trace := [FsWrite ''/srv/uploads/5-a.png'']\<rparr>)"
proof -
  have f: "req_file req_news_upload = Some photo"
    by (simp add: req_news_upload_def)
  have fails: "isl (fst (uploadToSupabase env_upload_fault photo world_supabase))"
    by (simp add: uploadToSupabase_result env_upload_fault_def env0_def Let_def)
  have row: "parseInt_id req_news_upload = Some 1" "rows (db world_supabase news) 1 \<noteq> None"
    by (simp_all add: req_news_upload_def world_supabase_def)
  have name: "now env_upload_fault @ ''-'' @ originalname photo = ''5-a.png''"
    "trace world_supabase = []"
    by (simp_all add: env_upload_fault_def env0_def photo_def world_supabase_def)
  have disk: "disk_fault env_disk_fault" "trace world_local = []"
    "path_join (path_join (dirname env_disk_fault) ''uploads'')
       (now env_disk_fault @ ''-'' @ originalname photo) = ''/srv/uploads/5-a.png''"
    by (simp_all add: env_disk_fault_def env0_def world_local_def photo_def path_join_def)
  show ?thesis
    using failed_upload_aborts_before_mutation
        [OF f, of env_upload_fault world_supabase 1 put_news_local]
      failed_upload_aborts_before_mutation
        [OF f, of env_disk_fault world_local 1 put_news_local]
      f fails row name disk
    by simp
qed

section \<open>Deleting a record whose blob cannot be deleted\<close>

text \<open>
  The claim C3, that a failed blob deletion never keeps the record from being deleted,
  is false at this input: with \<^verbatim>\<open>unlink\<close> refused, the local \<^verbatim>\<open>DELETE\<close> handler answers
  500 and the news row is still there; the only call made is the \<^verbatim>\<open>unlink\<close>.
\<close>

theorem record_delete_blocked_counterexample:
  "fst (delete_news_local env_unlink_denied req_news_plain world_local)
     = Inr (json_error 500 ''Failed to delete news'' (Some ''Failed to delete local file'')) \<and>
   image_at (snd (delete_news_local env_unlink_denied req_news_plain world_local)) news 1
     = Some (Str ''/uploads/1-old.png'') \<and>
   trace (snd (delete_news_local env_unlink_denied req_news_plain world_local))
     = [FsUnlink ''/srv/uploads/1-old.png'']"
  by (simp add: env_unlink_denied_def env0_def req_news_plain_def world_local_def
      news_body_def image_at_def delete_news_local_def io_defs findUnique_def
      deleteLocalFile_def unlink_def Let_def log_def field_def path_join_def)

text \<open>
  C3, amended. For every delete of a news item through \<^verbatim>\<open>DELETE /api/news/:id\<close>, in
  either variant, whose attachment reference is a non-empty string, the blob is deleted
  first and the row only after that has succeeded: when the blob deletion fails (on disk
  for a reason other than the file being absent already, in the bucket whenever the
  service reports an error) the handler answers 500 and the row and every blob stay as
  they were; otherwise the blob is gone, the row is deleted and the answer is 204.
\<close>

theorem blob_failure_blocks_record_delete:
  "parseInt_id req = Some i \<Longrightarrow> rows (db w news) i = Some existing \<Longrightarrow>
   existing ''image'' = Str s \<Longrightarrow> s \<noteq> [] \<Longrightarrow>
   p = path_join (dirname e) (strip_slash s) \<Longrightarrow>
   k = replace_first (SUPABASE_URL e @ ''/storage/v1/object/public/'' @ BUCKET_NAME @ ''/'') [] s \<Longrightarrow>
   delete_news_local e req w =
     (if unlink_denied e p
      then (Inr (json_error 500 ''Failed to delete news'' (Some ''Failed to delete local file'')),
            w\<lparr>trace := trace w @ [FsUnlink p]\<rparr>)
      else (Inr (send_empty 204),
            w\<lparr>trace := trace w @ [FsUnlink p, DbDelete news (Some i)],
              files := (files w)(p := None),
              db := (db w)(news := \<lparr>rows = (rows (db w news))(i := None),
                                     autoincrement = autoincrement (db w news)\<rparr>)\<rparr>)) \<and>
   delete_news_supabase e req w =
     (if remove_fault e
      then (Inr (json_error 500 ''Failed to delete news''
                   (Some ''Failed to delete file from Supabase'')),
            w\<lparr>trace := trace w @ [Remove [k]]\<rparr>)
      else (Inr (send_empty 204),
            w\<lparr>trace := trace w @ [Remove [k], DbDelete news (Some i)],
              bucket := (bucket w)(k := None),
              db := (db w)(news := \<lparr>rows = (rows (db w news))(i := None),
                                     autoincrement = autoincrement (db w news)\<rparr>)\<rparr>))"
  by (simp add: delete_news_local_def delete_news_supabase_def io_defs findUnique_def
      deleteLocalFile_result deleteFromSupabase_result Let_def log_def delete_result)

theorem blob_failure_blocks_record_delete_witness:
  "parseInt_id req_news_plain = Some 1 \<and>
   rows (db world_supabase news) 1
     = Some (field [(''id'', Num 1), (''title'', Str ''Open day''),
                    (''description'', Str ''All welcome''),
                    (''image'', Str old_url), (''publishedAt'', Date 0)]) \<and>
   old_url \<noteq> [] \<and>
   delete_news_supabase env_remove_fault req_news_plain world_supabase
     = (Inr (json_error 500 ''Failed to delete news''
               (Some ''Failed to delete file from Supabase'')),
        world_supabase\<lparr>trace := [Remove [''1-old.png'']]\<rparr>) \<and>
   fst (delete_news_supabase env0 req_news_plain world_supabase) = Inr (send_empty 204) \<and>
   rows (db (snd (delete_news_supabase env0 req_news_plain world_supabase)) news) 1 = None \<and>
   bucket (snd (delete_news_supabase env0 req_news_plain world_supabase)) ''1-old.png'' = None \<and>
   image_at world_local news 1 = Some (Str ''/uploads/1-old.png'') \<and>
   delete_news_local env_unlink_denied req_news_plain world_local
     = (Inr (json_error 500 ''Failed to delete news'' (Some ''Failed to delete local file'')),
        world_local\<lparr>trace := [FsUnlink ''/srv/uploads/1-old.png'']\<rparr>) \<and>
   fst (delete_news_local env0 req_news_plain world_local) = Inr (send_empty 204) \<and>
   rows (db (snd (delete_news_local env0 req_news_plain world_local)) news) 1 = None \<and>
   files (snd (delete_news_local env0 req_news_plain world_local)) ''/srv/uploads/1-old.png''
     = None"
proof -
  let ?row = "field [(''id'', Num 1), (''title'', Str ''Open day''),
                     (''description'', Str ''All welcome''),
                     (''image'', Str old_url), (''publishedAt'', Date 0)]"
  have id: "parseInt_id req_news_plain = Some 1"
    by (simp add: req_news_plain_def)
  have row: "rows (db world_supabase news) 1 = Some ?row"
    by (simp add: world_supabase_def)
  have img: "?row ''image'' = Str old_url"
    by (simp add: field_def)
  have ne: "old_url \<noteq> []"
    by (simp add: old_url_def)
  have k: "replace_first (SUPABASE_URL env0 @ ''/storage/v1/object/public/'' @ BUCKET_NAME @ ''/'')
             [] old_url = ''1-old.png''"
    by (simp add: env0_def BUCKET_NAME_def old_url_def)
  have k': "replace_first
              (SUPABASE_URL env_remove_fault @ ''/storage/v1/object/public/'' @ BUCKET_NAME @ ''/'')
              [] old_url = ''1-old.png''"
    by (simp add: env_remove_fault_def env0_def BUCKET_NAME_def old_url_def)
  have flags: "remove_fault env_remove_fault" "\<not> remove_fault env0"
    "trace world_supabase = []"
    by (simp_all add: env_remove_fault_def env0_def world_supabase_def)
  let ?local = "field [(''id'', Num 1), (''title'', Str ''Open day''),
                       (''description'', Str ''All welcome''),
                       (''image'', Str ''/uploads/1-old.png''), (''publishedAt'', Date 0)]"
  have lrow: "rows (db world_local news) 1 = Some ?local"
    by (simp add: world_local_def)
  have limg: "?local ''image'' = Str ''/uploads/1-old.png''"
    by (simp add: field_def)
  have lne: "''/uploads/1-old.png'' \<noteq> []"
    by simp
  have before: "image_at world_local news 1 = Some (Str ''/uploads/1-old.png'')"
    by (simp add: image_at_def lrow limg)
  have p: "''/srv/uploads/1-old.png''
             = path_join (dirname env0) (strip_slash ''/uploads/1-old.png'')"
    "''/srv/uploads/1-old.png''
       = path_join (dirname env_unlink_denied) (strip_slash ''/uploads/1-old.png'')"
    by (simp_all add: env_unlink_denied_def env0_def path_join_def)
  have kl: "''/uploads/1-old.png''
              = replace_first
                  (SUPABASE_URL env0 @ ''/storage/v1/object/public/'' @ BUCKET_NAME @ ''/'')
                  [] ''/uploads/1-old.png''"
    "''/uploads/1-old.png''
       = replace_first
           (SUPABASE_URL env_unlink_denied @ ''/storage/v1/object/public/'' @ BUCKET_NAME @ ''/'')
           [] ''/uploads/1-old.png''"
    by (simp_all add: env_unlink_denied_def env0_def BUCKET_NAME_def)
  have lflags: "unlink_denied env_unlink_denied ''/srv/uploads/1-old.png''"
    "\<not> unlink_denied env0 ''/srv/uploads/1-old.png''" "trace world_local = []"
    by (simp_all add: env_unlink_denied_def env0_def world_local_def)
  show ?thesis
    using blob_failure_blocks_record_delete
        [OF id row img ne refl k' [symmetric]]
      blob_failure_blocks_record_delete [OF id row img ne refl k [symmetric]]
      blob_failure_blocks_record_delete [OF id lrow limg lne p(2) kl(2)]
      blob_failure_blocks_record_delete [OF id lrow limg lne p(1) kl(1)]
      id row ne flags before lflags
    by simp
qed

section \<open>Replacing an attachment\<close>

text \<open>
  The claim C1, that the row is swapped to the new reference before the blob referenced
  so far is deleted, is false at these inputs: in the successful update of news item 1
  with an upload the removal of the old blob is the second call and the row update the
  third, in both variants; and when the row update then fails (here on an unparsable
  date) the answer is 500 and the row still carries the old reference, whose blob is gone.
\<close>

theorem row_swap_before_delete_counterexample:
  "trace (snd (route_supabase put_news_supabase env0 req_news_upload world_supabase))
     = [Upload ''5-a.png'', Remove [''1-old.png''], DbUpdate news (Some 1)] \<and>
   \<not> precedes (DbUpdate news (Some 1)) (Remove [''1-old.png''])
       (trace (snd (route_supabase put_news_supabase env0 req_news_upload world_supabase))) \<and>
   trace (snd (route_local put_news_local env0 req_news_upload world_local))
     = [FsWrite ''/srv/uploads/5-a.png'', FsUnlink ''/srv/uploads/1-old.png'',
        DbUpdate news (Some 1)] \<and>
   \<not> precedes (DbUpdate news (Some 1)) (FsUnlink ''/srv/uploads/1-old.png'')
       (trace (snd (route_local put_news_local env0 req_news_upload world_local))) \<and>
   answered (route_supabase put_news_supabase env0 req_news_bad_date world_supabase)
     = Some 500 \<and>
   image_at (snd (route_supabase put_news_supabase env0 req_news_bad_date world_supabase))
     news 1 = Some (Str old_url) \<and>
   bucket (snd (route_supabase put_news_supabase env0 req_news_bad_date world_supabase))
     ''1-old.png'' = None"
  by (simp add: env0_def req_news_upload_def req_news_bad_date_def photo_def news_body_def
      world_supabase_def world_local_def old_url_def empty_table_def answered_def image_at_def route_supabase_def memory_single_def
      put_news_supabase_def route_local_def upload_single_def put_news_local_def
      getLocalFileUrl_def io_defs findUnique_def uploadToSupabase_result
      deleteFromSupabase_result deleteLocalFile_result getPublicUrl_def BUCKET_NAME_def
      path_join_def update_def update_ok_def field_def or_js_def Let_def log_def
      put_table_def json_def json_error_def patch_row_def)

text \<open>
  C1, amended. For every update of a news item through \<^verbatim>\<open>PUT /api/news/:id\<close>, in
  either variant, that carries an uploaded file while the item holds a non-empty
  reference: the new blob is stored first, the blob referenced so far is deleted next,
  and the database row is updated last. This is the order of every run, successful or
  not: a failed store ends the run before the deletion, a failed deletion ends it before
  the row update, and in no run is the row updated before the old blob is deleted. When
  the update is answered with success, the row's reference is the new reference, the old
  blob is gone, and the new blob is stored under the new reference provided its key
  differs from the old one's.
\<close>

theorem old_blob_deleted_before_row_update:
  assumes "parseInt_id req = Some i" and "rows (db w news) i = Some existing"
    and "existing ''image'' = Str s" and "s \<noteq> []" and "req_file req = Some f"
    and "n = now e @ ''-'' @ originalname f"
    and "k = replace_first
               (SUPABASE_URL e @ ''/storage/v1/object/public/'' @ BUCKET_NAME @ ''/'') [] s"
    and "p = path_join (path_join (dirname e) ''uploads'') n"
    and "q = path_join (dirname e) (strip_slash s)"
  shows
    "trace (snd (route_supabase put_news_supabase e req w))
       = trace w @
         (if isl (fst (uploadToSupabase e f w)) then [Upload n]
          else if remove_fault e then [Upload n, Remove [k]]
          else [Upload n, Remove [k], DbUpdate news (Some i)]) \<and>
     trace (snd (route_local put_news_local e req w))
       = trace w @
         (if disk_fault e then [FsWrite p]
          else if unlink_denied e q then [FsWrite p, FsUnlink q]
          else [FsWrite p, FsUnlink q, DbUpdate news (Some i)]) \<and>
     (answered (route_supabase put_news_supabase e req w) = Some 200 \<longrightarrow>
        trace (snd (route_supabase put_news_supabase e req w))
          = trace w @ [Upload n, Remove [k], DbUpdate news (Some i)] \<and>
        image_at (snd (route_supabase put_news_supabase e req w)) news i
          = Some (Str (getPublicUrl e n)) \<and>
        bucket (snd (route_supabase put_news_supabase e req w)) k = None \<and>
        (k \<noteq> n \<longrightarrow>
           bucket (snd (route_supabase put_news_supabase e req w)) n = Some (buffer f))) \<and>
     (answered (route_local put_news_local e req w) = Some 200 \<longrightarrow>
        trace (snd (route_local put_news_local e req w))
          = trace w @ [FsWrite p, FsUnlink q, DbUpdate news (Some i)] \<and>
        image_at (snd (route_local put_news_local e req w)) news i
          = Some (Str (''/uploads/'' @ n)) \<and>
        files (snd (route_local put_news_local e req w)) q = None \<and>
        (q \<noteq> p \<longrightarrow>
           files (snd (route_local put_news_local e req w)) p = Some (buffer f)))"
proof -
  have remote_order:
    "trace (snd (route_supabase put_news_supabase e req w))
       = trace w @
         (if isl (fst (uploadToSupabase e f w)) then [Upload n]
          else if remove_fault e then [Upload n, Remove [k]]
          else [Upload n, Remove [k], DbUpdate news (Some i)])"
    using assms
    by (auto simp add: route_supabase_def memory_single_def put_news_supabase_def io_defs
        findUnique_def uploadToSupabase_result deleteFromSupabase_result update_result
        Let_def log_def or_js_def json_def json_error_def split: if_splits)
  have disk_order:
    "trace (snd (route_local put_news_local e req w))
       = trace w @
         (if disk_fault e then [FsWrite p]
          else if unlink_denied e q then [FsWrite p, FsUnlink q]
          else [FsWrite p, FsUnlink q, DbUpdate news (Some i)])"
    using assms
    by (auto simp add: route_local_def upload_single_def put_news_local_def io_defs
        findUnique_def deleteLocalFile_result update_result getLocalFileUrl_def
        Let_def log_def or_js_def json_def json_error_def split: if_splits)
  have remote:
    "answered (route_supabase put_news_supabase e req w) = Some 200 \<Longrightarrow>
       trace (snd (route_supabase put_news_supabase e req w))
         = trace w @ [Upload n, Remove [k], DbUpdate news (Some i)] \<and>
       image_at (snd (route_supabase put_news_supabase e req w)) news i
         = Some (Str (getPublicUrl e n)) \<and>
       bucket (snd (route_supabase put_news_supabase e req w)) k = None \<and>
       (k \<noteq> n \<longrightarrow>
          bucket (snd (route_supabase put_news_supabase e req w)) n = Some (buffer f))"
    using assms
    by (auto simp add: route_supabase_def memory_single_def put_news_supabase_def io_defs
        findUnique_def uploadToSupabase_result deleteFromSupabase_result update_result
        answered_def Let_def log_def or_js_def json_def json_error_def image_at_def
        patch_row_image split: if_splits)
  have disk:
    "answered (route_local put_news_local e req w) = Some 200 \<Longrightarrow>
       trace (snd (route_local put_news_local e req w))
         = trace w @ [FsWrite p, FsUnlink q, DbUpdate news (Some i)] \<and>
       image_at (snd (route_local put_news_local e req w)) news i
         = Some (Str (''/uploads/'' @ n)) \<and>
       files (snd (route_local put_news_local e req w)) q = None \<and>
       (q \<noteq> p \<longrightarrow>
          files (snd (route_local put_news_local e req w)) p = Some (buffer f))"
    using assms
    by (auto simp add: route_local_def upload_single_def put_news_local_def io_defs
        findUnique_def deleteLocalFile_result update_result getLocalFileUrl_def
        answered_def Let_def log_def or_js_def json_def json_error_def image_at_def
        patch_row_image split: if_splits)
  from remote_order disk_order remote disk show ?thesis by blast
qed

theorem old_blob_deleted_before_row_update_witness:
  "parseInt_id req_news_upload = Some 1 \<and> req_file req_news_upload = Some photo \<and>
   image_at world_supabase news 1 = Some (Str old_url) \<and> old_url \<noteq> [] \<and>
   answered (route_supabase put_news_supabase env0 req_news_upload world_supabase)
     = Some 200 \<and>
   trace (snd (route_supabase put_news_supabase env0 req_news_upload world_supabase))
     = [Upload ''5-a.png'', Remove [''1-old.png''], DbUpdate news (Some 1)] \<and>
   image_at (snd (route_supabase put_news_supabase env0 req_news_upload world_supabase))
     news 1 = Some (Str ''https://sb.example/storage/v1/object/public/uploads/5-a.png'') \<and>
   bucket (snd (route_supabase put_news_supabase env0 req_news_upload world_supabase))
     ''1-old.png'' = None \<and>
   bucket (snd (route_supabase put_news_supabase env0 req_news_upload world_supabase))
     ''5-a.png'' = Some ''NEW'' \<and>
   image_at world_local news 1 = Some (Str ''/uploads/1-old.png'') \<and>
   answered (route_local put_news_local env0 req_news_upload world_local) = Some 200 \<and>
   trace (snd (route_local put_news_local env0 req_news_upload world_local))
     = [FsWrite ''/srv/uploads/5-a.png'', FsUnlink ''/srv/uploads/1-old.png'',
        DbUpdate news (Some 1)] \<and>
   image_at (snd (route_local put_news_local env0 req_news_upload world_local)) news 1
     = Some (Str ''/uploads/5-a.png'') \<and>
   files (snd (route_local put_news_local env0 req_news_upload world_local))
     ''/srv/uploads/1-old.png'' = None \<and>
   files (snd (route_local put_news_local env0 req_news_upload world_local))
     ''/srv/uploads/5-a.png'' = Some ''NEW''"
proof -
  let ?row = "field [(''id'', Num 1), (''title'', Str ''Open day''),
                     (''description'', Str ''All welcome''),
                     (''image'', Str old_url), (''publishedAt'', Date 0)]"
  have id: "parseInt_id req_news_upload = Some 1"
    by (simp add: req_news_upload_def)
  have row: "rows (db world_supabase news) 1 = Some ?row"
    by (simp add: world_supabase_def)
  have img: "?row ''image'' = Str old_url"
    by (simp add: field_def)
  have ne: "old_url \<noteq> []"
    by (simp add: old_url_def)
  have f: "req_file req_news_upload = Some photo"
    by (simp add: req_news_upload_def)
  have n: "''5-a.png'' = now env0 @ ''-'' @ originalname photo"
    by (simp add: env0_def photo_def)
  have k: "''1-old.png'' = replace_first
             (SUPABASE_URL env0 @ ''/storage/v1/object/public/'' @ BUCKET_NAME @ ''/'') [] old_url"
    by (simp add: env0_def BUCKET_NAME_def old_url_def)
  have ok: "answered (route_supabase put_news_supabase env0 req_news_upload world_supabase)
              = Some 200"
    by (simp add: env0_def req_news_upload_def photo_def news_body_def world_supabase_def
        old_url_def answered_def route_supabase_def memory_single_def
        put_news_supabase_def io_defs findUnique_def uploadToSupabase_result
        deleteFromSupabase_result update_def update_ok_def field_def or_js_def Let_def
        log_def put_table_def json_def getPublicUrl_def)
  have before: "image_at world_supabase news 1 = Some (Str old_url)"
    by (simp add: image_at_def row img)
  have more: "buffer photo = ''NEW''" "trace world_supabase = []"
    "getPublicUrl env0 ''5-a.png''
       = ''https://sb.example/storage/v1/object/public/uploads/5-a.png''"
    by (simp_all add: photo_def world_supabase_def getPublicUrl_def env0_def BUCKET_NAME_def)
  let ?local = "field [(''id'', Num 1), (''title'', Str ''Open day''),
                       (''description'', Str ''All welcome''),
                       (''image'', Str ''/uploads/1-old.png''), (''publishedAt'', Date 0)]"
  have lrow: "rows (db world_local news) 1 = Some ?local"
    by (simp add: world_local_def)
  have limg: "?local ''image'' = Str ''/uploads/1-old.png''"
    by (simp add: field_def)
  have lne: "''/uploads/1-old.png'' \<noteq> []"
    by simp
  have lbefore: "image_at world_local news 1 = Some (Str ''/uploads/1-old.png'')"
    by (simp add: image_at_def lrow limg)
  have p: "''/srv/uploads/5-a.png'' = path_join (path_join (dirname env0) ''uploads'') ''5-a.png''"
    and q: "''/srv/uploads/1-old.png'' = path_join (dirname env0) (strip_slash ''/uploads/1-old.png'')"
    by (simp_all add: env0_def path_join_def)
  have kl: "''/uploads/1-old.png''
              = replace_first
                  (SUPABASE_URL env0 @ ''/storage/v1/object/public/'' @ BUCKET_NAME @ ''/'')
                  [] ''/uploads/1-old.png''"
    by (simp add: env0_def BUCKET_NAME_def)
  have lok: "answered (route_local put_news_local env0 req_news_upload world_local) = Some 200"
    by (simp add: env0_def req_news_upload_def photo_def news_body_def world_local_def answered_def route_local_def upload_single_def
        put_news_local_def getLocalFileUrl_def io_defs findUnique_def deleteLocalFile_result
        path_join_def update_def update_ok_def field_def or_js_def Let_def log_def
        put_table_def json_def)
  have lmore: "trace world_local = []"
    by (simp add: world_local_def)
  have flags: "\<not> isl (fst (uploadToSupabase env0 photo world_supabase))"
    "\<not> isl (fst (uploadToSupabase env0 photo world_local))"
    "\<not> remove_fault env0" "\<not> disk_fault env0" "unlink_denied env0 = (\<lambda>p. False)"
    by (simp_all add: uploadToSupabase_result Let_def env0_def photo_def world_supabase_def
        world_local_def)
  show ?thesis
    using old_blob_deleted_before_row_update [OF id row img ne f n k refl refl]
      old_blob_deleted_before_row_update [OF id lrow limg lne f n kl p q]
      id f before ne ok more lbefore lok lmore flags
    by simp
qed

section \<open>The routes of \<^verbatim>\<open>index.js\<close> that call helpers it does not have\<close>

text \<open>
  The claim C9, as far as it says that every delete of a struktur-organisasi or staff
  record with a non-null image fails, is false at this input: the second staff member's
  image is the empty string, which the handler's test takes for no image; the helper is
  not called, the row is deleted and the answer is 204.
\<close>

theorem delete_with_empty_image_counterexample:
  "image_at world_local staffAndTeacher 2 = Some (Str []) \<and>
   fst (delete_staffandteachers_local env0 req_person_second world_local)
     = Inr (send_empty 204) \<and>
   rows (db (snd (delete_staffandteachers_local env0 req_person_second world_local))
           staffAndTeacher) 2 = None \<and>
   trace (snd (delete_staffandteachers_local env0 req_person_second world_local))
     = [DbDelete staffAndTeacher (Some 2)]"
  by (simp add: env0_def req_person_second_def person_body_def world_local_def image_at_def delete_staffandteachers_local_def io_defs
      findUnique_def field_def delete_def Let_def log_def put_table_def)

text \<open>
  C9, amended. In \<^verbatim>\<open>index.js\<close> the struktur-organisasi and staff routes call
  \<^verbatim>\<open>uploadToSupabase\<close> and \<^verbatim>\<open>deleteFromSupabase\<close>, which the file never defines. So
  every create with an uploaded file is rejected with the reference error, every update
  with an uploaded file ends without success (500 when the row exists), and every delete
  of a record whose image is a non-empty string is answered 500; none of them changes a
  table, and the handlers leave the whole world as it was.
\<close>

theorem undefined_helpers_block_commit:
  "(req_file req = Some f \<longrightarrow>
      post_strukturOrganisasi_local e req w
        = (Inl (ReferenceError ''uploadToSupabase is not defined''), w) \<and>
      post_staffandteachers_local e req w
        = (Inl (ReferenceError ''uploadToSupabase is not defined''), w) \<and>
      snd (put_strukturOrganisasi_local e req w) = w \<and>
      answered (put_strukturOrganisasi_local e req w) \<noteq> Some 200 \<and>
      snd (put_staffandteachers_local e req w) = w \<and>
      answered (put_staffandteachers_local e req w) \<noteq> Some 200 \<and>
      (parseInt_id req = Some i \<and> rows (db w strukturOrganisasi) i \<noteq> None \<longrightarrow>
         put_strukturOrganisasi_local e req w
           = (Inr (json_error 500 ''Failed to update struktur organisasi'' None), w)) \<and>
      (parseInt_id req = Some i \<and> rows (db w staffAndTeacher) i \<noteq> None \<longrightarrow>
         put_staffandteachers_local e req w
           = (Inr (json_error 500 ''Failed to update staff or teacher'' None), w)) \<and>
      db (snd (route_local post_strukturOrganisasi_local e req w)) = db w \<and>
      db (snd (route_local post_staffandteachers_local e req w)) = db w \<and>
      db (snd (route_local put_strukturOrganisasi_local e req w)) = db w \<and>
      db (snd (route_local put_staffandteachers_local e req w)) = db w) \<and>
   (parseInt_id req = Some i \<and> existing ''image'' = Str s \<and> s \<noteq> [] \<longrightarrow>
      (rows (db w strukturOrganisasi) i = Some existing \<longrightarrow>
         delete_strukturOrganisasi_local e req w
           = (Inr \<lparr>status = 500, content = Send ''Error deleting struktur organisasi''\<rparr>, w)) \<and>
      (rows (db w staffAndTeacher) i = Some existing \<longrightarrow>
         delete_staffandteachers_local e req w
           = (Inr (json_error 500 ''Failed to delete staff or teacher'' None), w)))"
proof -
  have handlers: "req_file req = Some f \<Longrightarrow>
      post_strukturOrganisasi_local e req w
        = (Inl (ReferenceError ''uploadToSupabase is not defined''), w) \<and>
      post_staffandteachers_local e req w
        = (Inl (ReferenceError ''uploadToSupabase is not defined''), w) \<and>
      snd (put_strukturOrganisasi_local e req w) = w \<and>
      answered (put_strukturOrganisasi_local e req w) \<noteq> Some 200 \<and>
      snd (put_staffandteachers_local e req w) = w \<and>
      answered (put_staffandteachers_local e req w) \<noteq> Some 200"
    by (cases "parseInt_id req")
      (auto simp add: post_strukturOrganisasi_local_def post_staffandteachers_local_def
        put_strukturOrganisasi_local_def put_staffandteachers_local_def io_defs
        not_defined_def findUnique_def answered_def json_error_def split: option.splits)
  have existing: "req_file req = Some f \<Longrightarrow>
      (parseInt_id req = Some i \<and> rows (db w strukturOrganisasi) i \<noteq> None \<longrightarrow>
         put_strukturOrganisasi_local e req w
           = (Inr (json_error 500 ''Failed to update struktur organisasi'' None), w)) \<and>
      (parseInt_id req = Some i \<and> rows (db w staffAndTeacher) i \<noteq> None \<longrightarrow>
         put_staffandteachers_local e req w
           = (Inr (json_error 500 ''Failed to update staff or teacher'' None), w))"
    by (auto simp add: put_strukturOrganisasi_local_def put_staffandteachers_local_def
        io_defs not_defined_def findUnique_def split: option.splits)
  have routes: "req_file req = Some f \<Longrightarrow>
      db (snd (route_local post_strukturOrganisasi_local e req w)) = db w \<and>
      db (snd (route_local post_staffandteachers_local e req w)) = db w \<and>
      db (snd (route_local put_strukturOrganisasi_local e req w)) = db w \<and>
      db (snd (route_local put_staffandteachers_local e req w)) = db w"
    by (cases "parseInt_id req")
      (auto simp add: route_local_def upload_single_def Let_def log_def
        post_strukturOrganisasi_local_def post_staffandteachers_local_def
        put_strukturOrganisasi_local_def put_staffandteachers_local_def io_defs
        not_defined_def findUnique_def split: option.splits)
  have deletes: "parseInt_id req = Some i \<Longrightarrow> existing ''image'' = Str s \<Longrightarrow> s \<noteq> [] \<Longrightarrow>
      (rows (db w strukturOrganisasi) i = Some existing \<longrightarrow>
         delete_strukturOrganisasi_local e req w
           = (Inr \<lparr>status = 500, content = Send ''Error deleting struktur organisasi''\<rparr>, w)) \<and>
      (rows (db w staffAndTeacher) i = Some existing \<longrightarrow>
         delete_staffandteachers_local e req w
           = (Inr (json_error 500 ''Failed to delete staff or teacher'' None), w))"
    by (simp add: delete_strukturOrganisasi_local_def delete_staffandteachers_local_def
        io_defs not_defined_def findUnique_def)
  from handlers existing routes deletes show ?thesis by blast
qed

theorem undefined_helpers_block_commit_witness:
  "req_file req_person_upload = Some photo \<and> parseInt_id req_person_upload = Some 1 \<and>
   rows (db world_local staffAndTeacher) 1 \<noteq> None \<and>
   image_at world_local staffAndTeacher 1 = Some (Str ''/uploads/2-ani.png'') \<and>
   post_staffandteachers_local env0 req_person_upload world_local
     = (Inl (ReferenceError ''uploadToSupabase is not defined''), world_local) \<and>
   post_strukturOrganisasi_local env0 req_person_upload world_local
     = (Inl (ReferenceError ''uploadToSupabase is not defined''), world_local) \<and>
   put_staffandteachers_local env0 req_person_upload world_local
     = (Inr (json_error 500 ''Failed to update staff or teacher'' None), world_local) \<and>
   delete_staffandteachers_local env0 req_person_upload world_local
     = (Inr (json_error 500 ''Failed to delete staff or teacher'' None), world_local)"
proof -
  let ?row = "field [(''id'', Num 1), (''name'', Str ''Ani''), (''role'', Str ''Teacher''),
                     (''image'', Str ''/uploads/2-ani.png'')]"
  have f: "req_file req_person_upload = Some photo"
    and id: "parseInt_id req_person_upload = Some 1"
    by (simp_all add: req_person_upload_def)
  have row: "rows (db world_local staffAndTeacher) 1 = Some ?row"
    by (simp add: world_local_def)
  have img: "?row ''image'' = Str ''/uploads/2-ani.png''"
    by (simp add: field_def)
  have before: "image_at world_local staffAndTeacher 1 = Some (Str ''/uploads/2-ani.png'')"
    by (simp add: image_at_def row img)
  show ?thesis
    using undefined_helpers_block_commit
        [of req_person_upload photo env0 world_local 1 ?row "''/uploads/2-ani.png''"]
      f id row img before
    by simp
qed

section \<open>Handlers of the Supabase variant that were left behind\<close>

text \<open>
  C2, at the input \<^verbatim>\<open>PUT /api/headmaster-message/1\<close> with an image file, the stored
  message referencing a blob in the bucket: the handler answers 200 and the row's
  reference becomes \<^verbatim>\<open>/uploads/undefined\<close>, yet the only call made is the row update:
  the uploaded bytes are stored nowhere, and the blob referenced before is still in the
  bucket. The claim asks for the new blob to be stored and the old one to be deleted, as
  the news handler of the same file does.
\<close>

theorem headmaster_message_update_stores_nothing:
  "answered (route_supabase put_headmaster_message_supabase env0 req_person_upload
               world_supabase) = Some 200 \<and>
   image_at (snd (route_supabase put_headmaster_message_supabase env0 req_person_upload
                    world_supabase)) headmasterMessage 1
     = Some (Str ''/uploads/undefined'') \<and>
   bucket (snd (route_supabase put_headmaster_message_supabase env0 req_person_upload
                  world_supabase)) = [''1-old.png'' \<mapsto> ''OLD''] \<and>
   trace (snd (route_supabase put_headmaster_message_supabase env0 req_person_upload
                 world_supabase)) = [DbUpdate headmasterMessage (Some 1)]"
  by (simp add: env0_def req_person_upload_def person_body_def photo_def world_supabase_def
      old_url_def answered_def image_at_def route_supabase_def memory_single_def
      put_headmaster_message_supabase_def io_defs update_def update_ok_def field_def
      or_js_def Let_def log_def put_table_def json_def patch_row_def)

text \<open>
  C6, at the input \<^verbatim>\<open>PUT /api/staffandteachers/7\<close> with no row 7: the handler looks
  nothing up; the update throws inside the query layer, outside any \<^verbatim>\<open>try\<close>, so the
  handler's promise is rejected and no not-found answer is sent. The news handler of the
  same file, asked for the same missing id, answers 404 and calls nothing that writes.
\<close>

theorem staff_update_unknown_id_not_surfaced:
  "route_supabase put_staffandteachers_supabase env0 req_person_unknown world_supabase
     = (Inl (PrismaKnownRequestError ''Record to update not found.''),
        world_supabase\<lparr>trace := [DbUpdate staffAndTeacher (Some 7)]\<rparr>) \<and>
   answered (route_supabase put_staffandteachers_supabase env0 req_person_unknown
               world_supabase) = None \<and>
   route_supabase put_news_supabase env0 req_news_unknown world_supabase
     = (Inr (json_error 404 ''News not found'' None), world_supabase)"
  by (simp add: env0_def req_person_unknown_def req_news_unknown_def person_body_def news_body_def
      world_supabase_def old_url_def empty_table_def answered_def route_supabase_def memory_single_def
      put_staffandteachers_supabase_def put_news_supabase_def io_defs findUnique_def
      update_def update_ok_def field_def or_js_def Let_def log_def int4_def)

text \<open>What the news handlers of both files do on create: without an upload the created
  row's reference is \<^verbatim>\<open>null\<close>; with one, the blob is stored and the row references it.\<close>

lemma news_create_supabase_plain:
  "req_file req = None \<Longrightarrow>
   answered (route_supabase post_news_supabase e req w) = Some 200 \<Longrightarrow>
   image_at (snd (route_supabase post_news_supabase e req w)) news
     (autoincrement (db w news) + 1) = Some Null"
  by (auto simp add: route_supabase_def memory_single_def post_news_supabase_def io_defs
      create_result answered_def image_at_def log_def json_def json_error_def new_row_image
      split: if_splits option.splits)

lemma news_create_supabase_upload:
  "req_file req = Some f \<Longrightarrow> n = now e @ ''-'' @ originalname f \<Longrightarrow>
   answered (route_supabase post_news_supabase e req w) = Some 200 \<Longrightarrow>
   image_at (snd (route_supabase post_news_supabase e req w)) news
     (autoincrement (db w news) + 1) = Some (Str (getPublicUrl e n)) \<and>
   bucket (snd (route_supabase post_news_supabase e req w)) n = Some (buffer f)"
  by (auto simp add: route_supabase_def memory_single_def post_news_supabase_def io_defs
      uploadToSupabase_result create_result answered_def image_at_def Let_def log_def
      json_def json_error_def new_row_image split: if_splits option.splits)

lemma news_create_local_plain:
  "req_file req = None \<Longrightarrow>
   answered (route_local post_news_local e req w) = Some 200 \<Longrightarrow>
   image_at (snd (route_local post_news_local e req w)) news
     (autoincrement (db w news) + 1) = Some Null"
  by (auto simp add: route_local_def upload_single_def post_news_local_def io_defs
      create_result answered_def image_at_def log_def json_def json_error_def new_row_image
      split: if_splits option.splits)

lemma news_create_local_upload:
  "req_file req = Some f \<Longrightarrow> n = now e @ ''-'' @ originalname f \<Longrightarrow>
   answered (route_local post_news_local e req w) = Some 200 \<Longrightarrow>
   image_at (snd (route_local post_news_local e req w)) news
     (autoincrement (db w news) + 1) = Some (Str (''/uploads/'' @ n)) \<and>
   files (snd (route_local post_news_local e req w))
     (path_join (path_join (dirname e) ''uploads'') n) = Some (buffer f)"
  by (auto simp add: route_local_def upload_single_def post_news_local_def io_defs
      getLocalFileUrl_def create_result answered_def image_at_def Let_def log_def
      json_def json_error_def new_row_image split: if_splits option.splits)

lemmas news_create_reference =
  news_create_supabase_plain news_create_supabase_upload
  news_create_local_plain news_create_local_upload

text \<open>
  C8, at the input \<^verbatim>\<open>POST /api/staffandteachers\<close> with an image file: the handler
  answers 201 and the created row references \<^verbatim>\<open>/uploads/undefined\<close>; the only call made
  is the row creation, and the bucket is as before: no blob has been stored, so the
  created record's reference is not the reference of a stored blob.
\<close>

theorem staff_create_stores_nothing:
  "answered (route_supabase post_staffandteachers_supabase env0 req_person_upload
               world_supabase) = Some 201 \<and>
   image_at (snd (route_supabase post_staffandteachers_supabase env0 req_person_upload
                    world_supabase)) staffAndTeacher 2
     = Some (Str ''/uploads/undefined'') \<and>
   bucket (snd (route_supabase post_staffandteachers_supabase env0 req_person_upload
                  world_supabase)) = [''1-old.png'' \<mapsto> ''OLD''] \<and>
   files (snd (route_supabase post_staffandteachers_supabase env0 req_person_upload
                 world_supabase)) = Map.empty \<and>
   trace (snd (route_supabase post_staffandteachers_supabase env0 req_person_upload
                 world_supabase)) = [DbCreate staffAndTeacher]"
  by (simp add: env0_def req_person_upload_def person_body_def photo_def world_supabase_def
      old_url_def answered_def image_at_def route_supabase_def memory_single_def
      post_staffandteachers_supabase_def io_defs create_def create_ok_def field_def int4_def
      Let_def log_def put_table_def new_row_def)

end
